theory Spec2Isabelle
  imports Complex_Main "HOL-Library.AList" "HOL-Library.Char_ord" "HOL-Library.List_Lexorder"
    "HOL-Library.Multiset"
    "HOL-Library.Product_Lexorder"
begin

section \<open>The hivemind GRPO trainer: exceptions, store keys, observable events\<close>

text \<open>
  The model follows \<^verbatim>\<open>hivemind_exp/trainer/hivemind_grpo_trainer.py\<close>. Every call the
  trainer makes to a collaborator (the DHT, the TRL trainer, torch, the logger, the clock)
  is recorded as an event, in program order. Exceptions are values: a function that can
  raise returns \<open>Inl e\<close>. Python floats (rewards, durations, clock readings) are modelled as
  reals, so rounding, infinities and NaN are outside the model.
\<close>

datatype exn =
    BlockingIOError
  | EOFError
  | DatasetGenerationError
  | UnboundLocalError
  | KeyError
  | AssertionError
  | ValueError
  | OtherError string

definition MAX_TRAIN_FAILS :: nat where
  "MAX_TRAIN_FAILS = 5"

definition CADENCE_OF_UPDATE_STEPS :: int where
  "CADENCE_OF_UPDATE_STEPS = 4"

text \<open>
  The key builders of \<^verbatim>\<open>dht_utils\<close> are not part of the file; they are kept as free
  constructors of their arguments (\<^verbatim>\<open>node_outputs_key(node)\<close> may depend on the node's
  key, round and stage).
\<close>

datatype dht_key =
    ROUND_STAGE_NUMBER_KEY
  | Rewards_key int int
  | Leaderboard_key int int
  | Node_outputs_key string int int

type_synonym leaderboard = "(string \<times> real) list"
type_synonym py_dict = "(string \<times> string) list"
type_synonym metrics = "(string \<times> real) list"
type_synonym dataset = "string list"

datatype dht_value =
    Round_stage int int
  | Leaderboard leaderboard
  | Node_output real py_dict
  | Reward real

datatype log_msg =
    Msg_cant_retrieve_rewards int int
  | Msg_training int int
  | Msg_finished_training int int
  | Msg_pushing_model
  | Msg_push_failed
  | Msg_dht_ipc_error exn
  | Msg_saving_model
  | Msg_model_saved
  | Msg_tokenizer_saved
  | Msg_starting_round int
  | Msg_timed_out
  | Msg_could_not_fetch exn real
  | Msg_joining_round int int
  | Msg_reattempting
  | Msg_already_finished int real
  | Msg_system_info
  | Msg_exception_during_training

datatype event =
    Dht_store dht_key "string option" dht_value real
  | Dht_get dht_key
  | Get_visible_maddrs
  | Get_round_and_stage
  | Put_stage_outputs int int string
  | Log log_msg
  | Datasets_fn int int
  | Create_trainer "string list"
  | Trainer_train int int
  | Log_metrics metrics
  | Save_metrics metrics
  | Save_state
  | Save_model
  | Wait_for_everyone
  | Save_pretrained
  | Push_to_hub
  | Sleep real
  | Gc_collect
  | Cuda_empty_cache
  | Cuda_ipc_collect
  | Mps_empty_cache
  | Xpu_empty_cache
  | Clear_stage_cache
  | Wandb_finish
  | Destroy_process_group

section \<open>The node, the stage schedule, the collaborators\<close>

record node =
  key :: string
  is_coordinator :: bool
  round_num :: int
  stage_num :: int
  out_expiration :: real
  outputs :: py_dict
  rewards :: "real list"

text \<open>
  A collaborator's answer may differ from call to call. Each answer is therefore a
  function of \<open>tick\<close>, the number of collaborator answers consumed so far, which the
  state carries.
\<close>

record stage =
  datasets_fn :: "nat \<Rightarrow> int \<Rightarrow> int \<Rightarrow> exn + (dataset \<times> dataset)"
  reward_funcs :: "string list"

record env =
  stages :: "stage list"
  max_rounds :: int
  train_timeout :: real
  push_to_hub_token :: "string option"
  distributed_state :: bool
  wandb_run :: bool
  cuda_available :: bool
  mps_available :: bool
  xpu_available :: "bool option"
  trainer_train :: "nat \<Rightarrow> exn + metrics"
  push_to_hub :: "nat \<Rightarrow> exn option"
  get_dht_time :: "nat \<Rightarrow> real"
  monotonic :: "nat \<Rightarrow> real"
  get_round_and_stage :: "nat \<Rightarrow> exn + (int \<times> int)"
  get_dht_value :: "nat \<Rightarrow> dht_key \<Rightarrow> leaderboard option"
  super_compute_loss :: "nat \<Rightarrow> exn + real"
  time_time :: "nat \<Rightarrow> real"
  md5_hexdigest :: "string \<Rightarrow> string"

record world =
  node :: node
  tick :: nat
  dist_initialized :: bool

definition tock :: "world \<Rightarrow> world" where
  "tock w = w\<lparr>tick := Suc (tick w)\<rparr>"

text \<open>\<^verbatim>\<open>time.sleep\<close> raises ValueError on a negative duration.\<close>

definition py_sleep :: "real \<Rightarrow> exn + event list" where
  "py_sleep secs = (if secs < 0 then Inl ValueError else Inr [Sleep secs])"

text \<open>\<^verbatim>\<open>xs[start:]\<close>: a negative start counts from the end and is clipped at 0.\<close>

definition py_slice_from :: "'a list \<Rightarrow> int \<Rightarrow> 'a list" where
  "py_slice_from xs start =
     (if start < 0 then drop (nat (int (length xs) + start)) xs else drop (nat start) xs)"

section \<open>cleanup\<close>

text \<open>
  \<open>xpu_available = None\<close> stands for a torch without \<^verbatim>\<open>torch.xpu\<close> (the AttributeError
  that the source swallows). Destroying the process group makes
  \<^verbatim>\<open>torch.distributed.is_initialized()\<close> false.
\<close>

definition cleanup :: "env \<Rightarrow> world \<Rightarrow> event list \<times> world" where
  "cleanup env w =
     ([Gc_collect]
      @ (if cuda_available env then [Cuda_empty_cache, Cuda_ipc_collect] else [])
      @ (if mps_available env then [Mps_empty_cache] else [])
      @ (case xpu_available env of
           None \<Rightarrow> []
         | Some b \<Rightarrow> if b then [Xpu_empty_cache] else [])
      @ [Clear_stage_cache]
      @ (if wandb_run env then [Wandb_finish] else [])
      @ (if dist_initialized w then [Destroy_process_group] else []),
      w\<lparr>dist_initialized := False\<rparr>)"

section \<open>train_stage_and_save\<close>

text \<open>
  The retry loop \<^verbatim>\<open>for _ in range(MAX_TRAIN_FAILS)\<close>. The result \<open>Inr None\<close> is the loop
  running out with \<^verbatim>\<open>train_result\<close> never assigned.
\<close>

fun train_loop :: "env \<Rightarrow> nat \<Rightarrow> world \<Rightarrow> (exn + metrics option) \<times> event list \<times> world" where
  "train_loop env 0 w = (Inr None, [], w)"
| "train_loop env (Suc n) w =
     (let attempt = Trainer_train (round_num (node w)) (stage_num (node w)) in
      case trainer_train env (tick w) of
        Inr train_result \<Rightarrow> (Inr (Some train_result), [attempt], tock w)
      | Inl e \<Rightarrow>
          if e = BlockingIOError \<or> e = EOFError then
            (case cleanup env (tock w) of
               (evc, wc) \<Rightarrow>
                 (case train_loop env n wc of
                    (r, evs, w') \<Rightarrow>
                      (r, [attempt, Log (Msg_dht_ipc_error e)] @ evc @ [Sleep 5] @ evs, w')))
          else (Inl e, [attempt], tock w))"

text \<open>The statements after the loop: metrics, model, rendezvous, tokenizer.\<close>

definition save_stage :: "env \<Rightarrow> dataset \<Rightarrow> metrics \<Rightarrow> (exn + unit) \<times> event list" where
  "save_stage env train_dataset train_metrics =
     (let ms = AList.update ''train_samples'' (real (length train_dataset)) train_metrics;
          saved = [Log_metrics ms, Save_metrics ms, Save_state, Log Msg_saving_model,
                   Save_model, Log Msg_model_saved]
      in if distributed_state env
         then (Inr (), saved @ [Wait_for_everyone, Save_pretrained, Log Msg_tokenizer_saved])
         else (Inl AssertionError, saved))"

definition train_stage_and_save ::
    "env \<Rightarrow> dataset \<Rightarrow> world \<Rightarrow> (exn + unit) \<times> event list \<times> world" where
  "train_stage_and_save env train_dataset w =
     (case train_loop env MAX_TRAIN_FAILS w of
        (Inl e, evs, w') \<Rightarrow> (Inl e, evs, w')
      | (Inr None, evs, w') \<Rightarrow> (Inl UnboundLocalError, evs, w')
      | (Inr (Some train_result), evs, w') \<Rightarrow>
          (case save_stage env train_dataset train_result of
             (r, evs') \<Rightarrow> (r, evs @ evs', w')))"

section \<open>train_stages\<close>

text \<open>
  The body of \<^verbatim>\<open>for i, stage in enumerate(self.stage_data.stages[start_stage:])\<close>, with
  \<open>stage_no = start_stage + i\<close>.
\<close>

fun stages_loop ::
    "env \<Rightarrow> bool \<Rightarrow> int \<Rightarrow> int \<Rightarrow> stage list \<Rightarrow> world \<Rightarrow> (exn + unit) \<times> event list \<times> world" where
  "stages_loop env coord rnd stage_no [] w = (Inr (), [], w)"
| "stages_loop env coord rnd stage_no (stg # rest) w =
     (let w1 = w\<lparr>node := (node w)\<lparr>stage_num := stage_no\<rparr>\<rparr>;
          publish =
            (if coord
             then [Dht_store ROUND_STAGE_NUMBER_KEY None (Round_stage (round_num (node w1)) stage_no)
                     (get_dht_time env (tick w1) + out_expiration (node w1))]
             else []);
          w2 = (if coord then tock w1 else w1);
          pre = publish @ [Log (Msg_training rnd stage_no), Datasets_fn rnd stage_no]
      in case datasets_fn stg (tick w2) rnd stage_no of
           Inl e \<Rightarrow> (Inl e, pre, tock w2)
         | Inr (train_dataset, test_dataset) \<Rightarrow>
             (case train_stage_and_save env train_dataset (tock w2) of
                (Inl e, evs, w3) \<Rightarrow> (Inl e, pre @ [Create_trainer (reward_funcs stg)] @ evs, w3)
              | (Inr u, evs, w3) \<Rightarrow>
                  (case stages_loop env coord rnd (stage_no + 1) rest w3 of
                     (r, evs', w4) \<Rightarrow>
                       (r, pre @ [Create_trainer (reward_funcs stg)] @ evs
                           @ [Log (Msg_finished_training rnd stage_no)] @ evs', w4))))"

text \<open>
  The push to the hub: \<^verbatim>\<open>trainer\<close> is bound only if the loop ran at least once, and
  \<^verbatim>\<open>except Exception\<close> swallows the UnboundLocalError as it does a failed push.
\<close>

definition push_model :: "env \<Rightarrow> bool \<Rightarrow> world \<Rightarrow> event list \<times> world" where
  "push_model env trainer_bound w =
     (case push_to_hub_token env of
        None \<Rightarrow> ([], w)
      | Some token \<Rightarrow>
          if \<not> trainer_bound then ([Log Msg_pushing_model, Log Msg_push_failed], w)
          else (case push_to_hub env (tick w) of
                  None \<Rightarrow> ([Log Msg_pushing_model, Push_to_hub, Sleep 1], tock w)
                | Some e \<Rightarrow> ([Log Msg_pushing_model, Push_to_hub, Log Msg_push_failed], tock w)))"

definition train_stages ::
    "env \<Rightarrow> int \<Rightarrow> int \<Rightarrow> bool \<Rightarrow> world \<Rightarrow> (exn + unit) \<times> event list \<times> world" where
  "train_stages env rnd start_stage coord w =
     (let todo = py_slice_from (stages env) start_stage;
          w0 = w\<lparr>node := (node w)\<lparr>round_num := rnd\<rparr>\<rparr>
      in case stages_loop env coord rnd start_stage todo w0 of
           (Inl e, evs, w1) \<Rightarrow> (Inl e, evs, w1)
         | (Inr u, evs, w1) \<Rightarrow>
             (case push_model env (todo \<noteq> []) w1 of
                (evp, w2) \<Rightarrow>
                  (case cleanup env w2 of
                     (evc, w3) \<Rightarrow>
                       if todo = [] then (Inl UnboundLocalError, evs @ evp @ evc, w3)
                       else (Inr (), evs @ evp @ evc @ [Gc_collect], w3))))"

section \<open>coordinator_train\<close>

text \<open>
  \<^verbatim>\<open>and\<close> short-circuits: the clock is read only while \<open>rnd < max_rounds\<close>. The loop
  returns without the time-out message once the last round is done.
\<close>

function coordinator_loop ::
    "env \<Rightarrow> real \<Rightarrow> int \<Rightarrow> world \<Rightarrow> (exn + unit) \<times> event list \<times> world" where
  "coordinator_loop env start_time rnd w =
     (if \<not> rnd < max_rounds env then (Inr (), [Log Msg_timed_out], w)
      else if \<not> monotonic env (tick w) - start_time < train_timeout env
      then (Inr (), [Log Msg_timed_out], tock w)
      else
        (case train_stages env rnd 0 True (tock w) of
           (Inl e, evs, w1) \<Rightarrow>
             (Inl e, [Log (Msg_starting_round rnd), Get_visible_maddrs] @ evs, w1)
         | (Inr u, evs, w1) \<Rightarrow>
             if rnd + 1 = max_rounds env
             then (Inr (), [Log (Msg_starting_round rnd), Get_visible_maddrs] @ evs, w1)
             else
               (case coordinator_loop env start_time (rnd + 1) w1 of
                  (r, evs', w2) \<Rightarrow>
                    (r, [Log (Msg_starting_round rnd), Get_visible_maddrs] @ evs @ evs', w2))))"
  by pat_completeness auto
termination
  by (relation "measure (\<lambda>(env, start_time, rnd, w). nat (max_rounds env - rnd))") auto

definition coordinator_train :: "env \<Rightarrow> world \<Rightarrow> (exn + unit) \<times> event list \<times> world" where
  "coordinator_train env w = coordinator_loop env (monotonic env (tick w)) 0 (tock w)"

section \<open>follower_train\<close>

record follower =
  done_rounds :: "int set"
  fetch_log_time :: real
  check_backoff :: real

datatype control = Continue | Return | Raise exn

text \<open>The \<^verbatim>\<open>try\<close> around \<^verbatim>\<open>train_stages(round_num, stage, is_coordinator=False)\<close>.\<close>

definition replay_round ::
    "env \<Rightarrow> int \<Rightarrow> int \<Rightarrow> world \<Rightarrow> (exn + unit) \<times> event list \<times> world" where
  "replay_round env rnd stg w =
     (case train_stages env rnd stg False w of
        (Inr u, evs, w1) \<Rightarrow> (Inr (), evs, w1)
      | (Inl e, evs, w1) \<Rightarrow>
          if e = DatasetGenerationError then
            (if stg > 0 then
               (case train_stages env rnd 0 False w1 of
                  (r, evs', w2) \<Rightarrow> (r, evs @ [Log Msg_reattempting] @ evs', w2))
             else (Inl e, evs, w1))
          else (Inl e, evs, w1))"

text \<open>
  One pass through the body of the \<^verbatim>\<open>while\<close> loop, entered after the loop condition.
  \<^verbatim>\<open>continue\<close> and falling off the end of the body are both \<open>Continue\<close>.
\<close>

definition follower_iteration ::
    "env \<Rightarrow> real \<Rightarrow> real \<Rightarrow> real \<Rightarrow> follower \<Rightarrow> world
       \<Rightarrow> control \<times> event list \<times> follower \<times> world" where
  "follower_iteration env check_interval log_timeout max_check_interval fs w =
     (let curr_time = monotonic env (tick w);
          w1 = tock w;
          polled = [Get_visible_maddrs, Get_round_and_stage]
      in case get_round_and_stage env (tick w1) of
           Inl e \<Rightarrow>
             (let stale = curr_time - fetch_log_time fs > log_timeout;
                  logged = (if stale then [Log (Msg_could_not_fetch e check_interval)] else []);
                  fs1 = (if stale then fs\<lparr>fetch_log_time := curr_time\<rparr> else fs)
              in case py_sleep check_interval of
                   Inl e' \<Rightarrow> (Raise e', polled @ logged, fs1, tock w1)
                 | Inr slept \<Rightarrow> (Continue, polled @ logged @ slept, fs1, tock w1))
         | Inr (rnd, stg) \<Rightarrow>
             if rnd \<notin> done_rounds fs then
               (case replay_round env rnd stg (tock w1) of
                  (Inl e, evs, w2) \<Rightarrow>
                    (Raise e, polled @ [Log (Msg_joining_round rnd stg)] @ evs, fs, w2)
                | (Inr u, evs, w2) \<Rightarrow>
                    (if rnd = max_rounds env - 1 then Return else Continue,
                     polled @ [Log (Msg_joining_round rnd stg)] @ evs,
                     fs\<lparr>done_rounds := insert rnd (done_rounds fs),
                        check_backoff := check_interval\<rparr>,
                     w2))
             else
               (case py_sleep (check_backoff fs) of
                  Inl e \<Rightarrow>
                    (Raise e, polled @ [Log (Msg_already_finished rnd (check_backoff fs))],
                     fs, tock w1)
                | Inr slept \<Rightarrow>
                    (if rnd = max_rounds env - 1 then Return else Continue,
                     polled @ [Log (Msg_already_finished rnd (check_backoff fs))] @ slept,
                     fs\<lparr>check_backoff := min (check_backoff fs * 2) max_check_interval\<rparr>,
                     tock w1)))"

text \<open>
  The \<^verbatim>\<open>while\<close> loop runs as long as the clock allows, so the model takes fuel: \<open>None\<close>
  is a loop still running when the fuel is spent.
\<close>

fun follower_loop ::
    "nat \<Rightarrow> env \<Rightarrow> real \<Rightarrow> real \<Rightarrow> real \<Rightarrow> real \<Rightarrow> follower \<Rightarrow> world
       \<Rightarrow> ((exn + unit) \<times> event list \<times> follower \<times> world) option" where
  "follower_loop 0 env start_time ci lt mci fs w = None"
| "follower_loop (Suc fuel) env start_time ci lt mci fs w =
     (if monotonic env (tick w) - start_time < train_timeout env then
        (case follower_iteration env ci lt mci fs (tock w) of
           (Raise e, evs, fs1, w1) \<Rightarrow> Some (Inl e, evs, fs1, w1)
         | (Return, evs, fs1, w1) \<Rightarrow> Some (Inr (), evs, fs1, w1)
         | (Continue, evs, fs1, w1) \<Rightarrow>
             (case follower_loop fuel env start_time ci lt mci fs1 w1 of
                None \<Rightarrow> None
              | Some (r, evs', fs2, w2) \<Rightarrow> Some (r, evs @ evs', fs2, w2)))
      else Some (Inr (), [Log Msg_timed_out], fs, tock w))"

definition follower_train ::
    "nat \<Rightarrow> env \<Rightarrow> real \<Rightarrow> real \<Rightarrow> real \<Rightarrow> world
       \<Rightarrow> ((exn + unit) \<times> event list \<times> follower \<times> world) option" where
  "follower_train fuel env check_interval log_timeout max_check_interval w =
     (let start_time = monotonic env (tick w)
      in follower_loop fuel env start_time check_interval log_timeout max_check_interval
           \<lparr>done_rounds = {}, fetch_log_time = start_time, check_backoff = check_interval\<rparr>
           (tock w))"

section \<open>train\<close>

text \<open>\<^verbatim>\<open>_train\<close>: the follower runs with the default intervals 5, 10 and 300 seconds.\<close>

definition train_by_role ::
    "nat \<Rightarrow> env \<Rightarrow> world \<Rightarrow> ((exn + unit) \<times> event list \<times> world) option" where
  "train_by_role fuel env w =
     (if is_coordinator (node w) then Some (coordinator_train env w)
      else (case follower_train fuel env 5 10 (60 * 5) w of
              None \<Rightarrow> None
            | Some (r, evs, fs, w1) \<Rightarrow> Some (r, evs, w1)))"

definition train :: "nat \<Rightarrow> env \<Rightarrow> world \<Rightarrow> ((exn + unit) \<times> event list \<times> world) option" where
  "train fuel env w =
     (case train_by_role fuel env w of
        None \<Rightarrow> None
      | Some (r, evs, w1) \<Rightarrow>
          Some (r,
                evs
                @ (case r of
                     Inl e \<Rightarrow> [Log Msg_system_info, Log Msg_exception_during_training]
                   | Inr u \<Rightarrow> [])
                @ (if dist_initialized w1 then [Destroy_process_group] else []),
                w1\<lparr>dist_initialized := False\<rparr>))"

section \<open>The publishing trainer: publish_leaderboard and compute_loss\<close>

record publishing_trainer =
  global_step :: int
  stage_rewards :: real

text \<open>
  \<^verbatim>\<open>sorted(items, key=f, reverse=True)\<close> is a stable sort: CPython reverses the list,
  sorts it ascending by key, and reverses the result. Tuples compare lexicographically,
  strings by code point.
\<close>

definition py_sorted_reverse :: "('a \<Rightarrow> 'k::linorder) \<Rightarrow> 'a list \<Rightarrow> 'a list" where
  "py_sorted_reverse f xs = rev (sort_key f (rev xs))"

text \<open>
  A dict is its list of items in insertion order. \<^verbatim>\<open>if curr_rewards:\<close> is false for
  \<^verbatim>\<open>None\<close> and for the empty dict.
\<close>

definition publish_leaderboard :: "env \<Rightarrow> world \<Rightarrow> event list \<times> world" where
  "publish_leaderboard env w =
     (let r = round_num (node w);
          s = stage_num (node w);
          curr_rewards = get_dht_value env (tick w) (Rewards_key r s);
          w1 = tock w
      in case curr_rewards of
           None \<Rightarrow> ([Dht_get (Rewards_key r s), Log (Msg_cant_retrieve_rewards r (s - 1))], w1)
         | Some items \<Rightarrow>
             if items = []
             then ([Dht_get (Rewards_key r s), Log (Msg_cant_retrieve_rewards r (s - 1))], w1)
             else
               ([Dht_get (Rewards_key r s),
                 Dht_store (Leaderboard_key r s) None
                   (Leaderboard (py_sorted_reverse (\<lambda>t. (snd t, fst t)) items))
                   (get_dht_time env (tick w1) + out_expiration (node w))],
                tock w1))"

text \<open>The block under \<^verbatim>\<open>if self.state.global_step % CADENCE_OF_UPDATE_STEPS == 0\<close>.\<close>

definition publish_outputs ::
    "env \<Rightarrow> publishing_trainer \<Rightarrow> world
       \<Rightarrow> (exn + unit) \<times> event list \<times> publishing_trainer \<times> world" where
  "publish_outputs env ts w =
     (case map_of (outputs (node w)) ''question'' of
        None \<Rightarrow> (Inl KeyError, [], ts, w)
      | Some question \<Rightarrow>
          (let nd = node w;
               q_hash = md5_hexdigest env question;
               val = Node_output (time_time env (tick w)) (outputs nd);
               w1 = tock w;
               store_outputs =
                 Dht_store (Node_outputs_key (key nd) (round_num nd) (stage_num nd)) (Some q_hash)
                   val (get_dht_time env (tick w1) + out_expiration nd);
               w2 = tock w1;
               total = stage_rewards ts + sum_list (rewards nd);
               store_rewards =
                 Dht_store (Rewards_key (round_num nd) (stage_num nd)) (Some (key nd))
                   (Reward total) (get_dht_time env (tick w2) + out_expiration nd)
           in (Inr (),
               [store_outputs, Put_stage_outputs (round_num nd) (stage_num nd) q_hash,
                store_rewards],
               ts\<lparr>stage_rewards := total\<rparr>, tock w2)))"

definition compute_loss ::
    "env \<Rightarrow> publishing_trainer \<Rightarrow> world
       \<Rightarrow> (exn + real) \<times> event list \<times> publishing_trainer \<times> world" where
  "compute_loss env ts w =
     (case super_compute_loss env (tick w) of
        Inl e \<Rightarrow> (Inl e, [], ts, tock w)
      | Inr loss \<Rightarrow>
          (case (if global_step ts mod CADENCE_OF_UPDATE_STEPS = 0
                 then publish_outputs env ts (tock w)
                 else (Inr (), [], ts, tock w)) of
             (Inl e, evs, ts1, w1) \<Rightarrow> (Inl e, evs, ts1, w1)
           | (Inr u, evs, ts1, w1) \<Rightarrow>
               if is_coordinator (node w1)
               then (case publish_leaderboard env w1 of
                       (evl, w2) \<Rightarrow> (Inr loss, evs @ evl, ts1, w2))
               else (Inr loss, evs, ts1, w1)))"

section \<open>Reading a trace\<close>

text \<open>The rewards snapshot that \<^verbatim>\<open>publish_leaderboard\<close> reads in a given state.\<close>

definition rewards_snapshot :: "env \<Rightarrow> world \<Rightarrow> leaderboard option" where
  "rewards_snapshot env w =
     get_dht_value env (tick w) (Rewards_key (round_num (node w)) (stage_num (node w)))"

text \<open>The leaderboards written under a leaderboard key, in order.\<close>

fun stored_leaderboards :: "event list \<Rightarrow> leaderboard list" where
  "stored_leaderboards [] = []"
| "stored_leaderboards (Dht_store (Leaderboard_key r s) sk (Leaderboard lb) t # evs) =
     lb # stored_leaderboards evs"
| "stored_leaderboards (e # evs) = stored_leaderboards evs"

text \<open>The values written under the round and stage key, in order.\<close>

fun pointer_writes :: "event list \<Rightarrow> (int \<times> int) list" where
  "pointer_writes [] = []"
| "pointer_writes (Dht_store ROUND_STAGE_NUMBER_KEY sk (Round_stage r s) t # evs) =
     (r, s) # pointer_writes evs"
| "pointer_writes (e # evs) = pointer_writes evs"

text \<open>Every store write, whatever the key.\<close>

fun is_store :: "event \<Rightarrow> bool" where
  "is_store (Dht_store k sk v t) = True"
| "is_store e = False"

text \<open>
  A run of \<^verbatim>\<open>cleanup\<close> calls \<^verbatim>\<open>node.clear_stage_cache()\<close> once, and nothing else calls it:
  the runs of \<^verbatim>\<open>cleanup\<close> are the \<open>Clear_stage_cache\<close> events.
\<close>

definition cleanup_runs :: "event list \<Rightarrow> nat" where
  "cleanup_runs evs = count_list evs Clear_stage_cache"

fun is_train_attempt :: "event \<Rightarrow> bool" where
  "is_train_attempt (Trainer_train r s) = True"
| "is_train_attempt e = False"

definition train_attempts :: "event list \<Rightarrow> nat" where
  "train_attempts evs = length (filter is_train_attempt evs)"

text \<open>The \<^verbatim>\<open>except (BlockingIOError, EOFError)\<close> branch logs its warning once per entry.\<close>

fun is_ipc_warning :: "event \<Rightarrow> bool" where
  "is_ipc_warning (Log (Msg_dht_ipc_error e)) = True"
| "is_ipc_warning e = False"

definition transient_failures :: "event list \<Rightarrow> nat" where
  "transient_failures evs = length (filter is_ipc_warning evs)"

section \<open>Scenarios\<close>

text \<open>
  Concrete collaborators for running the model: a store with no rewards, a clock that
  stands still, a training step that succeeds at once, a pointer that reads (0, 0).
\<close>

definition quiet_env :: env where
  "quiet_env =
     \<lparr>stages = [], max_rounds = 1, train_timeout = 100, push_to_hub_token = None,
      distributed_state = True, wandb_run = False, cuda_available = False,
      mps_available = False, xpu_available = None,
      trainer_train = (\<lambda>k. Inr []), push_to_hub = (\<lambda>k. None),
      get_dht_time = (\<lambda>k. 0), monotonic = (\<lambda>k. 0),
      get_round_and_stage = (\<lambda>k. Inr (0, 0)),
      get_dht_value = (\<lambda>k dk. None), super_compute_loss = (\<lambda>k. Inr 0),
      time_time = (\<lambda>k. 0), md5_hexdigest = (\<lambda>q. q)\<rparr>"

definition fresh_world :: world where
  "fresh_world =
     \<lparr>node = \<lparr>key = ''peer'', is_coordinator = False, round_num = 0, stage_num = 0,
              out_expiration = 60, outputs = [(''question'', ''q'')], rewards = [1]\<rparr>,
      tick = 0, dist_initialized = False\<rparr>"

text \<open>A store whose rewards snapshot holds three workers, two of them tied.\<close>

definition scored_env :: env where
  "scored_env =
     quiet_env\<lparr>get_dht_value := (\<lambda>k dk. Some [(''a'', 1), (''b'', 3), (''c'', 1)])\<rparr>"

text \<open>Stages whose dataset construction always fails, always succeeds, or fails early on.\<close>

definition failing_stage :: stage where
  "failing_stage = \<lparr>datasets_fn = (\<lambda>k r s. Inl DatasetGenerationError), reward_funcs = []\<rparr>"

definition good_stage :: stage where
  "good_stage = \<lparr>datasets_fn = (\<lambda>k r s. Inr ([''x''], [''y''])), reward_funcs = [''reward'']\<rparr>"

definition flaky_stage :: stage where
  "flaky_stage =
     \<lparr>datasets_fn = (\<lambda>k r s. if k < 4 then Inl DatasetGenerationError else Inr ([''x''], [''y''])),
      reward_funcs = [''reward'']\<rparr>"

text \<open>The state of \<open>fresh_world\<close> after \<open>k\<close> collaborator answers, at stage \<open>s\<close>.\<close>

definition at_tick :: "nat \<Rightarrow> int \<Rightarrow> world" where
  "at_tick k s = fresh_world\<lparr>node := (node fresh_world)\<lparr>stage_num := s\<rparr>, tick := k\<rparr>"

text \<open>What one successful stage of \<open>good_stage\<close> leaves in the trace of a follower.\<close>

definition one_stage_trace :: "int \<Rightarrow> int \<Rightarrow> event list" where
  "one_stage_trace r s =
     [Log (Msg_training r s), Datasets_fn r s, Create_trainer [''reward''],
      Trainer_train r s, Log_metrics [(''train_samples'', 1)],
      Save_metrics [(''train_samples'', 1)], Save_state, Log Msg_saving_model,
      Save_model, Log Msg_model_saved, Wait_for_everyone, Save_pretrained,
      Log Msg_tokenizer_saved, Log (Msg_finished_training r s)]"

text \<open>Followers: one that has replayed round 0, one that has replayed nothing.\<close>

definition caught_up :: follower where
  "caught_up = \<lparr>done_rounds = {0}, fetch_log_time = 0, check_backoff = 5\<rparr>"

definition not_started :: follower where
  "not_started = \<lparr>done_rounds = {}, fetch_log_time = 0, check_backoff = 5\<rparr>"

text \<open>
  A follower that joins round 0 at stage 1: in \<open>late_joiner_env\<close> every dataset construction
  fails, in \<open>recovering_env\<close> only the first, in \<open>first_stage_env\<close> the pointer reads (0, 0).
\<close>

definition late_joiner_env :: env where
  "late_joiner_env =
     quiet_env\<lparr>stages := [failing_stage, failing_stage],
               get_round_and_stage := (\<lambda>k. Inr (0, 1))\<rparr>"

definition recovering_env :: env where
  "recovering_env =
     quiet_env\<lparr>stages := [good_stage, flaky_stage],
               get_round_and_stage := (\<lambda>k. Inr (0, 1))\<rparr>"

definition first_stage_env :: env where
  "first_stage_env = quiet_env\<lparr>stages := [failing_stage]\<rparr>"

definition single_stage_env :: env where
  "single_stage_env = quiet_env\<lparr>stages := [good_stage]\<rparr>"

text \<open>Two rounds of one stage, a pointer that stays at (0, 0), a clock that jumps past the
  time-out at its tenth reading.\<close>

definition impatient_env :: env where
  "impatient_env =
     quiet_env\<lparr>stages := [good_stage], max_rounds := 2,
               monotonic := (\<lambda>k. if k < 9 then 0 else 100)\<rparr>"

text \<open>A training step that raises a transient error at every attempt.\<close>

definition stuck_env :: env where
  "stuck_env = quiet_env\<lparr>trainer_train := (\<lambda>k. Inl BlockingIOError)\<rparr>"

text \<open>A training step whose first attempt fails with a transient error.\<close>

definition hiccup_env :: env where
  "hiccup_env =
     quiet_env\<lparr>stages := [good_stage],
               trainer_train := (\<lambda>k. if k < 2 then Inl BlockingIOError else Inr [])\<rparr>"

text \<open>
  The work of stage \<open>s\<close> of round \<open>r\<close>: the call of its \<^verbatim>\<open>datasets_fn\<close> and the attempts of
  its training step.
\<close>

definition stage_work :: "int \<Rightarrow> int \<Rightarrow> event \<Rightarrow> bool" where
  "stage_work r s e = (e = Datasets_fn r s \<or> e = Trainer_train r s)"

text \<open>
  A trace of round \<open>rnd\<close> is announced when every piece of stage work in it belongs to
  round \<open>rnd\<close> and comes after a write of its own (round, stage) pair under the round and
  stage key.
\<close>

definition announced :: "int \<Rightarrow> event list \<Rightarrow> bool" where
  "announced rnd evs =
     (\<forall>pre e post r s. evs = pre @ e # post \<and> stage_work r s e \<longrightarrow>
        r = rnd \<and> (\<exists>t. Dht_store ROUND_STAGE_NUMBER_KEY None (Round_stage rnd s) t \<in> set pre))"

definition only_stage :: "int \<Rightarrow> int \<Rightarrow> event list \<Rightarrow> bool" where
  "only_stage r s evs = (\<forall>e \<in> set evs. \<forall>r' s'. stage_work r' s' e \<longrightarrow> r' = r \<and> s' = s)"

text \<open>A coordinator's schedule of two rounds of two stages.\<close>

definition two_rounds_env :: env where
  "two_rounds_env = quiet_env\<lparr>stages := [good_stage, good_stage], max_rounds := 2\<rparr>"

text \<open>The coordinator's own state, and a publishing trainer at optimizer step 1.\<close>

definition coordinator_world :: world where
  "coordinator_world = fresh_world\<lparr>node := (node fresh_world)\<lparr>is_coordinator := True\<rparr>\<rparr>"

definition step_one :: publishing_trainer where
  "step_one = \<lparr>global_step = 1, stage_rewards = 0\<rparr>"

section \<open>Properties of the leaderboard\<close>

lemma mset_py_sorted_reverse: "mset (py_sorted_reverse f xs) = mset xs"
  by (simp add: py_sorted_reverse_def)

lemma py_sorted_reverse_descending:
  "sorted_wrt (\<lambda>a b. f b \<le> f a) (py_sorted_reverse f xs)"
  unfolding py_sorted_reverse_def
  using sorted_sort_key[of f "rev xs"]
  by (simp add: sorted_wrt_rev sorted_map)

lemma py_sorted_reverse_order_free:
  assumes "inj_on f (set xs)" "distinct xs" "distinct ys" "set xs = set ys"
  shows "py_sorted_reverse f xs = py_sorted_reverse f ys"
proof -
  let ?a = "sort_key f (rev xs)" and ?b = "sort_key f (rev ys)"
  have sa: "sorted (map f ?a)" and sb: "sorted (map f ?b)" by simp_all
  have da: "distinct (map f ?a)" and db: "distinct (map f ?b)"
    using assms by (simp_all add: distinct_map)
  have "set (map f ?a) = set (map f ?b)" using assms by simp
  with sa da sb db have "map f ?a = map f ?b" by (intro sorted_distinct_set_unique)
  moreover have "inj_on f (set ?a \<union> set ?b)" using assms by simp
  ultimately have "?a = ?b" by (simp add: inj_on_map_eq_map)
  then show ?thesis by (simp add: py_sorted_reverse_def)
qed

lemma reward_key_inj: "inj_on (\<lambda>t. (snd t, fst t)) A"
  by (auto simp: inj_on_def prod_eq_iff)

lemma publish_leaderboard_present:
  assumes "rewards_snapshot env w = Some items" "items \<noteq> []"
  shows "stored_leaderboards (fst (publish_leaderboard env w)) =
           [py_sorted_reverse (\<lambda>t. (snd t, fst t)) items]"
  using assms by (simp add: publish_leaderboard_def rewards_snapshot_def Let_def)

lemma publish_leaderboard_skipped:
  assumes "rewards_snapshot env w = None \<or> rewards_snapshot env w = Some []"
  shows "fst (publish_leaderboard env w) =
           [Dht_get (Rewards_key (round_num (node w)) (stage_num (node w))),
            Log (Msg_cant_retrieve_rewards (round_num (node w)) (stage_num (node w) - 1))]"
  using assms by (auto simp add: publish_leaderboard_def rewards_snapshot_def Let_def)

text \<open>
  C4: when the rewards snapshot is a non-empty dict, the leaderboard that
  \<^verbatim>\<open>publish_leaderboard\<close> stores holds exactly the snapshot's (worker key, reward) pairs,
  in descending order of reward, with the larger worker key first among equal rewards. It
  is the same list for any two snapshots with the same pairs, whatever order the dicts
  hold them in; in particular two runs on the same snapshot store the same list.
\<close>
theorem leaderboard_sorted_and_deterministic:
  assumes "rewards_snapshot env w = Some items" and "items \<noteq> []"
    and "distinct (map fst items)"
    and "rewards_snapshot env' w' = Some items'" and "distinct (map fst items')"
    and "set items' = set items"
  shows "\<exists>lb. stored_leaderboards (fst (publish_leaderboard env w)) = [lb]
            \<and> stored_leaderboards (fst (publish_leaderboard env' w')) = [lb]
            \<and> mset lb = mset items
            \<and> sorted_wrt (\<lambda>a b. snd b < snd a \<or> (snd b = snd a \<and> fst b < fst a)) lb"
proof -
  let ?kf = "\<lambda>t::string \<times> real. (snd t, fst t)"
  let ?lb = "py_sorted_reverse ?kf items"
  have d: "distinct items" "distinct items'"
    using assms(3,5) by (simp_all add: distinct_map)
  have ne: "items' \<noteq> []" using assms(2,6) by auto
  have same: "py_sorted_reverse ?kf items' = ?lb"
    using py_sorted_reverse_order_free[OF reward_key_inj d(2) d(1) assms(6)] .
  have desc: "sorted_wrt (\<lambda>a b. ?kf b \<le> ?kf a) ?lb"
    by (rule py_sorted_reverse_descending)
  have "distinct ?lb"
    using d(1) mset_py_sorted_reverse[of ?kf items] by (metis mset_eq_imp_distinct_iff)
  with desc have "sorted_wrt (\<lambda>a b. ?kf b \<le> ?kf a \<and> a \<noteq> b) ?lb"
    by (simp add: sorted_wrt_iff_nth_less distinct_conv_nth)
  then have strict: "sorted_wrt (\<lambda>a b. snd b < snd a \<or> (snd b = snd a \<and> fst b < fst a)) ?lb"
    by (rule sorted_wrt_mono_rel[rotated]) (auto simp: prod_eq_iff)
  show ?thesis
    using publish_leaderboard_present[OF assms(1,2)] publish_leaderboard_present[OF assms(4) ne]
      same mset_py_sorted_reverse[of ?kf items] strict
    by auto
qed

theorem leaderboard_sorted_and_deterministic_witness:
  "rewards_snapshot scored_env fresh_world = Some [(''a'', 1), (''b'', 3), (''c'', 1)]
   \<and> rewards_snapshot (scored_env\<lparr>get_dht_value := (\<lambda>k dk. Some [(''c'', 1), (''a'', 1), (''b'', 3)])\<rparr>) fresh_world
       = Some [(''c'', 1), (''a'', 1), (''b'', 3)]
   \<and> stored_leaderboards (fst (publish_leaderboard scored_env fresh_world))
       = [[(''b'', 3), (''c'', 1), (''a'', 1)]]
   \<and> stored_leaderboards (fst (publish_leaderboard (scored_env\<lparr>get_dht_value := (\<lambda>k dk. Some [(''c'', 1), (''a'', 1), (''b'', 3)])\<rparr>) fresh_world))
       = [[(''b'', 3), (''c'', 1), (''a'', 1)]]"
  using leaderboard_sorted_and_deterministic[of scored_env fresh_world "[(''a'', 1), (''b'', 3), (''c'', 1)]"
     "scored_env\<lparr>get_dht_value := (\<lambda>k dk. Some [(''c'', 1), (''a'', 1), (''b'', 3)])\<rparr>" fresh_world "[(''c'', 1), (''a'', 1), (''b'', 3)]"]
  by (simp add: rewards_snapshot_def scored_env_def quiet_env_def fresh_world_def publish_leaderboard_def
       tock_def py_sorted_reverse_def)

text \<open>
  C7: when the rewards snapshot is absent, \<^verbatim>\<open>publish_leaderboard\<close> reads the store, logs,
  and writes nothing. Whatever the snapshot, a leaderboard that is written is never empty
  and holds every pair of the snapshot that was read.
\<close>
theorem absent_snapshot_writes_no_leaderboard:
  "(rewards_snapshot env w = None \<longrightarrow>
      fst (publish_leaderboard env w) =
        [Dht_get (Rewards_key (round_num (node w)) (stage_num (node w))),
         Log (Msg_cant_retrieve_rewards (round_num (node w)) (stage_num (node w) - 1))])
   \<and> (\<forall>lb. lb \<in> set (stored_leaderboards (fst (publish_leaderboard env w))) \<longrightarrow>
         lb \<noteq> [] \<and> (\<exists>items. rewards_snapshot env w = Some items \<and> mset lb = mset items))"
proof (intro conjI impI allI)
  assume "rewards_snapshot env w = None"
  then show "fst (publish_leaderboard env w) =
        [Dht_get (Rewards_key (round_num (node w)) (stage_num (node w))),
         Log (Msg_cant_retrieve_rewards (round_num (node w)) (stage_num (node w) - 1))]"
    by (simp add: publish_leaderboard_skipped)
next
  fix lb
  assume lb: "lb \<in> set (stored_leaderboards (fst (publish_leaderboard env w)))"
  show "lb \<noteq> []"
  proof (cases "rewards_snapshot env w")
    case None
    with lb show ?thesis by (simp add: publish_leaderboard_skipped)
  next
    case (Some items)
    show ?thesis
    proof (cases "items = []")
      case True
      with Some lb show ?thesis by (simp add: publish_leaderboard_skipped)
    next
      case False
      with Some lb have "lb = py_sorted_reverse (\<lambda>t. (snd t, fst t)) items"
        by (simp add: publish_leaderboard_present)
      with False mset_py_sorted_reverse[of "\<lambda>t. (snd t, fst t)" items] show ?thesis by auto
    qed
  qed
  show "\<exists>items. rewards_snapshot env w = Some items \<and> mset lb = mset items"
  proof (cases "rewards_snapshot env w")
    case None
    with lb show ?thesis by (simp add: publish_leaderboard_skipped)
  next
    case (Some items)
    show ?thesis
    proof (cases "items = []")
      case True
      with Some lb show ?thesis by (simp add: publish_leaderboard_skipped)
    next
      case False
      with Some lb have "lb = py_sorted_reverse (\<lambda>t. (snd t, fst t)) items"
        by (simp add: publish_leaderboard_present)
      with Some show ?thesis by (simp add: mset_py_sorted_reverse)
    qed
  qed
qed

theorem absent_snapshot_writes_no_leaderboard_witness:
  "rewards_snapshot quiet_env fresh_world = None
   \<and> fst (publish_leaderboard quiet_env fresh_world) =
        [Dht_get (Rewards_key 0 0), Log (Msg_cant_retrieve_rewards 0 (- 1))]
   \<and> [(''b'', 3), (''c'', 1), (''a'', 1)]
        \<in> set (stored_leaderboards (fst (publish_leaderboard scored_env fresh_world)))
   \<and> rewards_snapshot scored_env fresh_world = Some [(''a'', 1), (''b'', 3), (''c'', 1)]"
  using absent_snapshot_writes_no_leaderboard[of quiet_env fresh_world]
    absent_snapshot_writes_no_leaderboard[of scored_env fresh_world]
  by (simp add: rewards_snapshot_def scored_env_def quiet_env_def fresh_world_def publish_leaderboard_def
       tock_def py_sorted_reverse_def)

section \<open>Properties of the follower\<close>

lemmas run_defs =
  tock_def py_slice_from_def py_sleep_def cleanup_def MAX_TRAIN_FAILS_def eval_nat_numeral
  save_stage_def train_stage_and_save_def push_model_def train_stages_def
  replay_round_def follower_iteration_def follower_train_def Let_def

text \<open>
  C9: when the pointer names a round that is already in \<open>done_rounds\<close>, the iteration
  polls, logs and sleeps \<open>check_backoff\<close>, and that is the whole trace: no store write, no
  training attempt, no cleanup. Of the follower's state only \<open>check_backoff\<close> changes; the
  node and the process group are untouched. (A negative \<open>check_backoff\<close> makes the sleep
  raise, and then nothing changes at all.)
\<close>

theorem idle_poll_only_backs_off:
  assumes "get_round_and_stage env (tick (tock w)) = Inr (rnd, stg)"
    and "rnd \<in> done_rounds fs"
  shows "follower_iteration env ci lt mci fs w =
           (if check_backoff fs < 0
            then (Raise ValueError,
                  [Get_visible_maddrs, Get_round_and_stage,
                   Log (Msg_already_finished rnd (check_backoff fs))],
                  fs, tock (tock w))
            else (if rnd = max_rounds env - 1 then Return else Continue,
                  [Get_visible_maddrs, Get_round_and_stage,
                   Log (Msg_already_finished rnd (check_backoff fs)), Sleep (check_backoff fs)],
                  fs\<lparr>check_backoff := min (check_backoff fs * 2) mci\<rparr>, tock (tock w)))
         \<and> filter is_store (fst (snd (follower_iteration env ci lt mci fs w))) = []
         \<and> train_attempts (fst (snd (follower_iteration env ci lt mci fs w))) = 0
         \<and> cleanup_runs (fst (snd (follower_iteration env ci lt mci fs w))) = 0
         \<and> done_rounds (fst (snd (snd (follower_iteration env ci lt mci fs w)))) = done_rounds fs
         \<and> fetch_log_time (fst (snd (snd (follower_iteration env ci lt mci fs w))))
             = fetch_log_time fs
         \<and> node (snd (snd (snd (follower_iteration env ci lt mci fs w)))) = node w
         \<and> dist_initialized (snd (snd (snd (follower_iteration env ci lt mci fs w))))
             = dist_initialized w"
  using assms
  by (simp add: follower_iteration_def Let_def py_sleep_def train_attempts_def
      cleanup_runs_def tock_def)

theorem idle_poll_only_backs_off_witness:
  "get_round_and_stage quiet_env (tick (tock fresh_world)) = Inr (0, 0)
   \<and> 0 \<in> done_rounds caught_up
   \<and> follower_iteration quiet_env 5 10 300 caught_up fresh_world =
       (Return,
        [Get_visible_maddrs, Get_round_and_stage, Log (Msg_already_finished 0 5), Sleep 5],
        caught_up\<lparr>check_backoff := 10\<rparr>, tock (tock fresh_world))"
  using idle_poll_only_backs_off[of quiet_env fresh_world 0 0 caught_up 5 10 300]
  by (simp add: quiet_env_def caught_up_def)

text \<open>
  C3: a follower that observes (rnd, stg), with rnd not yet done, and whose replay from
  stage stg raises a dataset-generation error. If stg is positive it runs the stages once
  more, from stage 0: whatever error that second run raises leaves the loop, and a second
  run that succeeds completes the round. If stg is not positive there is no second run and
  the dataset-generation error leaves the loop.
\<close>

theorem catch_up_retries_once_from_stage_0:
  assumes "monotonic env (tick w0) - start_time < train_timeout env"
    and "get_round_and_stage env (tick (tock (tock w0))) = Inr (rnd, stg)"
    and "rnd \<notin> done_rounds fs"
    and "train_stages env rnd stg False (tock (tock (tock w0)))
           = (Inl DatasetGenerationError, evs1, w1)"
    and "train_stages env rnd 0 False w1 = (r2, evs2, w2)"
  shows "(0 < stg \<longrightarrow> (\<forall>e. r2 = Inl e \<longrightarrow>
            follower_loop (Suc fuel) env start_time ci lt mci fs w0 =
              Some (Inl e,
                    [Get_visible_maddrs, Get_round_and_stage, Log (Msg_joining_round rnd stg)]
                    @ evs1 @ [Log Msg_reattempting] @ evs2,
                    fs, w2)))
       \<and> (0 < stg \<longrightarrow> r2 = Inr () \<longrightarrow>
            follower_iteration env ci lt mci fs (tock w0) =
              (if rnd = max_rounds env - 1 then Return else Continue,
               [Get_visible_maddrs, Get_round_and_stage, Log (Msg_joining_round rnd stg)]
               @ evs1 @ [Log Msg_reattempting] @ evs2,
               fs\<lparr>done_rounds := insert rnd (done_rounds fs), check_backoff := ci\<rparr>, w2))
       \<and> (stg \<le> 0 \<longrightarrow>
            follower_loop (Suc fuel) env start_time ci lt mci fs w0 =
              Some (Inl DatasetGenerationError,
                    [Get_visible_maddrs, Get_round_and_stage, Log (Msg_joining_round rnd stg)]
                    @ evs1,
                    fs, w1))"
  using assms
  by (auto simp add: follower_iteration_def replay_round_def Let_def)

theorem catch_up_retries_once_from_stage_0_witness:
  "monotonic late_joiner_env (tick fresh_world) - 0 < train_timeout late_joiner_env
   \<and> get_round_and_stage late_joiner_env (tick (tock (tock fresh_world))) = Inr (0, 1)
   \<and> 0 \<notin> done_rounds not_started
   \<and> train_stages late_joiner_env 0 1 False (tock (tock (tock fresh_world))) =
       (Inl DatasetGenerationError, [Log (Msg_training 0 1), Datasets_fn 0 1], at_tick 4 1)
   \<and> train_stages late_joiner_env 0 0 False (at_tick 4 1) =
       (Inl DatasetGenerationError, [Log (Msg_training 0 0), Datasets_fn 0 0], at_tick 5 0)
   \<and> follower_loop (Suc 0) late_joiner_env 0 5 10 300 not_started fresh_world =
       Some (Inl DatasetGenerationError,
             [Get_visible_maddrs, Get_round_and_stage, Log (Msg_joining_round 0 1),
              Log (Msg_training 0 1), Datasets_fn 0 1, Log Msg_reattempting,
              Log (Msg_training 0 0), Datasets_fn 0 0],
             not_started, at_tick 5 0)
   \<and> train_stages recovering_env 0 1 False (tock (tock (tock fresh_world))) =
       (Inl DatasetGenerationError, [Log (Msg_training 0 1), Datasets_fn 0 1], at_tick 4 1)
   \<and> train_stages recovering_env 0 0 False (at_tick 4 1) =
       (Inr (),
        one_stage_trace 0 0 @ one_stage_trace 0 1 @ [Gc_collect, Clear_stage_cache, Gc_collect],
        at_tick 8 1)
   \<and> follower_iteration recovering_env 5 10 300 not_started (tock fresh_world) =
       (Return,
        [Get_visible_maddrs, Get_round_and_stage, Log (Msg_joining_round 0 1),
         Log (Msg_training 0 1), Datasets_fn 0 1, Log Msg_reattempting]
        @ one_stage_trace 0 0 @ one_stage_trace 0 1 @ [Gc_collect, Clear_stage_cache, Gc_collect],
        not_started\<lparr>done_rounds := {0}\<rparr>, at_tick 8 1)
   \<and> get_round_and_stage first_stage_env (tick (tock (tock fresh_world))) = Inr (0, 0)
   \<and> train_stages first_stage_env 0 0 False (tock (tock (tock fresh_world))) =
       (Inl DatasetGenerationError, [Log (Msg_training 0 0), Datasets_fn 0 0], at_tick 4 0)
   \<and> follower_loop (Suc 0) first_stage_env 0 5 10 300 not_started fresh_world =
       Some (Inl DatasetGenerationError,
             [Get_visible_maddrs, Get_round_and_stage, Log (Msg_joining_round 0 0),
              Log (Msg_training 0 0), Datasets_fn 0 0],
             not_started, at_tick 4 0)"
proof -
  note scn = quiet_env_def fresh_world_def at_tick_def one_stage_trace_def failing_stage_def
    good_stage_def flaky_stage_def late_joiner_env_def recovering_env_def first_stage_env_def
    not_started_def
  have a: "train_stages late_joiner_env 0 1 False (tock (tock (tock fresh_world))) =
       (Inl DatasetGenerationError, [Log (Msg_training 0 1), Datasets_fn 0 1], at_tick 4 1)"
    by (simp add: scn run_defs)
  have b: "train_stages late_joiner_env 0 0 False (at_tick 4 1) =
       (Inl DatasetGenerationError, [Log (Msg_training 0 0), Datasets_fn 0 0], at_tick 5 0)"
    by (simp add: scn run_defs)
  have c: "train_stages recovering_env 0 1 False (tock (tock (tock fresh_world))) =
       (Inl DatasetGenerationError, [Log (Msg_training 0 1), Datasets_fn 0 1], at_tick 4 1)"
    by (simp add: scn run_defs)
  have d: "train_stages recovering_env 0 0 False (at_tick 4 1) =
       (Inr (),
        one_stage_trace 0 0 @ one_stage_trace 0 1 @ [Gc_collect, Clear_stage_cache, Gc_collect],
        at_tick 8 1)"
    by (simp add: scn run_defs)
  have e: "train_stages first_stage_env 0 0 False (tock (tock (tock fresh_world))) =
       (Inl DatasetGenerationError, [Log (Msg_training 0 0), Datasets_fn 0 0], at_tick 4 0)"
    by (simp add: scn run_defs)
  have f: "train_stages first_stage_env 0 0 False (at_tick 4 0) =
       (Inl DatasetGenerationError, [Log (Msg_training 0 0), Datasets_fn 0 0], at_tick 5 0)"
    by (simp add: scn run_defs)
  have polls:
      "monotonic late_joiner_env (tick fresh_world) - 0 < train_timeout late_joiner_env"
      "get_round_and_stage late_joiner_env (tick (tock (tock fresh_world))) = Inr (0, 1)"
      "monotonic recovering_env (tick fresh_world) - 0 < train_timeout recovering_env"
      "get_round_and_stage recovering_env (tick (tock (tock fresh_world))) = Inr (0, 1)"
      "monotonic first_stage_env (tick fresh_world) - 0 < train_timeout first_stage_env"
      "get_round_and_stage first_stage_env (tick (tock (tock fresh_world))) = Inr (0, 0)"
      "0 \<notin> done_rounds not_started"
      "max_rounds recovering_env = 1"
    by (simp_all add: scn)
  show ?thesis
    using catch_up_retries_once_from_stage_0[OF polls(1) polls(2) polls(7) a b, of 0 5 10 300]
      catch_up_retries_once_from_stage_0[OF polls(3) polls(4) polls(7) c d, of 0 5 10 300]
      catch_up_retries_once_from_stage_0[OF polls(5) polls(6) polls(7) e f, of 0 5 10 300]
      a b c d e polls
    by (simp add: not_started_def)
qed

lemma follower_iteration_backoff:
  assumes "0 \<le> ci" "ci \<le> mci" "ci \<le> check_backoff fs" "check_backoff fs \<le> mci"
  shows "ci \<le> check_backoff (fst (snd (snd (follower_iteration env ci lt mci fs w))))
       \<and> check_backoff (fst (snd (snd (follower_iteration env ci lt mci fs w)))) \<le> mci"
  using assms
  by (auto simp add: follower_iteration_def Let_def py_sleep_def
      split: sum.splits prod.splits if_splits)

lemma follower_loop_backoff:
  assumes "0 \<le> ci" "ci \<le> mci"
  shows "ci \<le> check_backoff fs \<Longrightarrow> check_backoff fs \<le> mci \<Longrightarrow>
         follower_loop fuel env st ci lt mci fs w = Some (r, evs, fs', w') \<Longrightarrow>
         ci \<le> check_backoff fs' \<and> check_backoff fs' \<le> mci"
proof (induction fuel arbitrary: fs w r evs fs' w')
  case 0
  then show ?case by simp
next
  case (Suc fuel)
  show ?case
  proof (cases "monotonic env (tick w) - st < train_timeout env")
    case False
    with Suc.prems show ?thesis by simp
  next
    case True
    obtain c evs1 fs1 w1 where
      it: "follower_iteration env ci lt mci fs (tock w) = (c, evs1, fs1, w1)"
      by (metis prod_cases4)
    have inv1: "ci \<le> check_backoff fs1 \<and> check_backoff fs1 \<le> mci"
      using follower_iteration_backoff[OF assms Suc.prems(1,2), of env lt "tock w"] it by simp
    show ?thesis
    proof (cases c)
      case Continue
      with True it Suc.prems(3) obtain evs2 where
        "follower_loop fuel env st ci lt mci fs1 w1 = Some (r, evs2, fs', w')"
        by (auto split: option.splits)
      with Suc.IH inv1 show ?thesis by blast
    next
      case Return
      with True it Suc.prems(3) inv1 show ?thesis by auto
    next
      case (Raise e)
      with True it Suc.prems(3) inv1 show ?thesis by auto
    qed
  qed
qed

text \<open>
  C8, as the code has it: with \<open>0 \<le> check_interval \<le> max_check_interval\<close> (the defaults are
  5 and 300), \<open>check_interval \<le> check_backoff \<le> max_check_interval\<close> is an invariant of the
  loop, which starts with \<open>check_backoff = check_interval\<close>. Every iteration keeps it, and
  so does every completed run of the loop. An idle poll sets \<open>check_backoff\<close> to
  \<open>min (2 * check_backoff) max_check_interval\<close>, which is not smaller than before, and a
  replayed round sets it to \<open>check_interval\<close>.
\<close>

theorem backoff_doubles_capped_and_resets:
  assumes "0 \<le> ci" and "ci \<le> mci"
    and "ci \<le> check_backoff fs" and "check_backoff fs \<le> mci"
  shows "ci \<le> check_backoff (fst (snd (snd (follower_iteration env ci lt mci fs w))))
       \<and> check_backoff (fst (snd (snd (follower_iteration env ci lt mci fs w)))) \<le> mci
       \<and> (\<forall>rnd stg. get_round_and_stage env (tick (tock w)) = Inr (rnd, stg)
               \<and> rnd \<in> done_rounds fs \<longrightarrow>
             check_backoff (fst (snd (snd (follower_iteration env ci lt mci fs w))))
               = min (check_backoff fs * 2) mci
             \<and> check_backoff fs
               \<le> check_backoff (fst (snd (snd (follower_iteration env ci lt mci fs w)))))
       \<and> (\<forall>rnd stg. get_round_and_stage env (tick (tock w)) = Inr (rnd, stg)
               \<and> rnd \<notin> done_rounds fs
               \<and> (fst (follower_iteration env ci lt mci fs w) = Continue
                  \<or> fst (follower_iteration env ci lt mci fs w) = Return) \<longrightarrow>
             check_backoff (fst (snd (snd (follower_iteration env ci lt mci fs w)))) = ci
             \<and> done_rounds (fst (snd (snd (follower_iteration env ci lt mci fs w))))
               = insert rnd (done_rounds fs))
       \<and> (\<forall>fuel st r evs fs' w'.
             follower_loop fuel env st ci lt mci fs w = Some (r, evs, fs', w') \<longrightarrow>
             ci \<le> check_backoff fs' \<and> check_backoff fs' \<le> mci)"
proof (intro conjI allI impI)
  show "ci \<le> check_backoff (fst (snd (snd (follower_iteration env ci lt mci fs w))))"
    and "check_backoff (fst (snd (snd (follower_iteration env ci lt mci fs w)))) \<le> mci"
    using follower_iteration_backoff[OF assms] by simp_all
next
  fix rnd stg
  assume p: "get_round_and_stage env (tick (tock w)) = Inr (rnd, stg) \<and> rnd \<in> done_rounds fs"
  have nn: "\<not> check_backoff fs < 0" using assms by simp
  from p nn
  show "check_backoff (fst (snd (snd (follower_iteration env ci lt mci fs w))))
          = min (check_backoff fs * 2) mci"
    by (simp add: follower_iteration_def Let_def py_sleep_def)
  with assms
  show "check_backoff fs \<le> check_backoff (fst (snd (snd (follower_iteration env ci lt mci fs w))))"
    by simp
next
  fix rnd stg
  assume p: "get_round_and_stage env (tick (tock w)) = Inr (rnd, stg) \<and> rnd \<notin> done_rounds fs
             \<and> (fst (follower_iteration env ci lt mci fs w) = Continue
                \<or> fst (follower_iteration env ci lt mci fs w) = Return)"
  then show "check_backoff (fst (snd (snd (follower_iteration env ci lt mci fs w)))) = ci"
    and "done_rounds (fst (snd (snd (follower_iteration env ci lt mci fs w))))
               = insert rnd (done_rounds fs)"
    by (auto simp add: follower_iteration_def Let_def split: sum.splits prod.splits if_splits)
next
  fix fuel st r evs fs' w'
  assume "follower_loop fuel env st ci lt mci fs w = Some (r, evs, fs', w')"
  with follower_loop_backoff[OF assms(1,2) assms(3,4)]
  show "ci \<le> check_backoff fs'" and "check_backoff fs' \<le> mci" by blast+
qed

theorem backoff_doubles_capped_and_resets_witness:
  "(0::real) \<le> 5 \<and> (5::real) \<le> 300
   \<and> 5 \<le> check_backoff caught_up \<and> check_backoff caught_up \<le> 300
   \<and> get_round_and_stage quiet_env (tick (tock fresh_world)) = Inr (0, 0)
   \<and> 0 \<in> done_rounds caught_up
   \<and> check_backoff (fst (snd (snd (follower_iteration quiet_env 5 10 300 caught_up fresh_world))))
       = 10
   \<and> 5 \<le> check_backoff (not_started\<lparr>check_backoff := 40\<rparr>)
   \<and> check_backoff (not_started\<lparr>check_backoff := 40\<rparr>) \<le> 300
   \<and> get_round_and_stage single_stage_env (tick (tock fresh_world)) = Inr (0, 0)
   \<and> 0 \<notin> done_rounds (not_started\<lparr>check_backoff := 40\<rparr>)
   \<and> follower_iteration single_stage_env 5 10 300 (not_started\<lparr>check_backoff := 40\<rparr>)
         fresh_world
       = (Return,
          [Get_visible_maddrs, Get_round_and_stage, Log (Msg_joining_round 0 0)]
          @ one_stage_trace 0 0 @ [Gc_collect, Clear_stage_cache, Gc_collect],
          \<lparr>done_rounds = {0}, fetch_log_time = 0, check_backoff = 5\<rparr>, at_tick 4 0)
   \<and> follower_loop 4 impatient_env 0 5 10 300 caught_up fresh_world
       = Some (Inr (),
               [Get_visible_maddrs, Get_round_and_stage, Log (Msg_already_finished 0 5), Sleep 5,
                Get_visible_maddrs, Get_round_and_stage, Log (Msg_already_finished 0 10), Sleep 10,
                Get_visible_maddrs, Get_round_and_stage, Log (Msg_already_finished 0 20), Sleep 20,
                Log Msg_timed_out],
               caught_up\<lparr>check_backoff := 40\<rparr>, at_tick 10 0)"
proof -
  note scn = quiet_env_def fresh_world_def at_tick_def one_stage_trace_def good_stage_def
    single_stage_env_def impatient_env_def not_started_def caught_up_def
  have basic: "(0::real) \<le> 5" "(5::real) \<le> 300"
    "5 \<le> check_backoff caught_up" "check_backoff caught_up \<le> 300"
    "5 \<le> check_backoff (not_started\<lparr>check_backoff := 40\<rparr>)"
    "check_backoff (not_started\<lparr>check_backoff := 40\<rparr>) \<le> 300"
    by (simp_all add: scn)
  have replay:
    "follower_iteration single_stage_env 5 10 300 (not_started\<lparr>check_backoff := 40\<rparr>)
         fresh_world
       = (Return,
          [Get_visible_maddrs, Get_round_and_stage, Log (Msg_joining_round 0 0)]
          @ one_stage_trace 0 0 @ [Gc_collect, Clear_stage_cache, Gc_collect],
          \<lparr>done_rounds = {0}, fetch_log_time = 0, check_backoff = 5\<rparr>, at_tick 4 0)"
    by (simp add: scn run_defs)
  have idle:
    "follower_loop 4 impatient_env 0 5 10 300 caught_up fresh_world
       = Some (Inr (),
               [Get_visible_maddrs, Get_round_and_stage, Log (Msg_already_finished 0 5), Sleep 5,
                Get_visible_maddrs, Get_round_and_stage, Log (Msg_already_finished 0 10), Sleep 10,
                Get_visible_maddrs, Get_round_and_stage, Log (Msg_already_finished 0 20), Sleep 20,
                Log Msg_timed_out],
               caught_up\<lparr>check_backoff := 40\<rparr>, at_tick 10 0)"
    by (simp add: scn run_defs)
  show ?thesis
    using backoff_doubles_capped_and_resets[OF basic(1,2,3,4), of quiet_env 10 fresh_world]
      backoff_doubles_capped_and_resets[OF basic(1,2,5,6), of single_stage_env 10 fresh_world]
      backoff_doubles_capped_and_resets[OF basic(1,2,3,4), of impatient_env 10 fresh_world]
      replay idle basic
    by (simp add: scn)
qed

text \<open>
  C8 as the specification words it fails when \<open>check_interval\<close> is larger than
  \<open>max_check_interval\<close>:
  \<^verbatim>\<open>follower_train(check_interval=600, max_check_interval=300)\<close> replays round 0, then
  sleeps 600 seconds at its first idle poll, more than the cap, and leaves the poll with
  \<open>check_backoff = 300\<close>, less than before.
\<close>

theorem backoff_above_cap_counterexample:
  "follower_train 3 impatient_env 600 10 300 fresh_world
     = Some (Inr (),
             [Get_visible_maddrs, Get_round_and_stage, Log (Msg_joining_round 0 0)]
             @ one_stage_trace 0 0
             @ [Gc_collect, Clear_stage_cache, Gc_collect,
                Get_visible_maddrs, Get_round_and_stage,
                Log (Msg_already_finished 0 600), Sleep 600, Log Msg_timed_out],
             \<lparr>done_rounds = {0}, fetch_log_time = 0, check_backoff = 300\<rparr>, at_tick 10 0)
   \<and> (300::real) < 600"
  by (simp add: quiet_env_def fresh_world_def at_tick_def one_stage_trace_def good_stage_def
      impatient_env_def run_defs)

section \<open>Properties of the retry loop\<close>

lemma cleanup_trace [simp]:
  "cleanup_runs (fst (cleanup env w)) = 1"
  "transient_failures (fst (cleanup env w)) = 0"
  "train_attempts (fst (cleanup env w)) = 0"
  "count_list (fst (cleanup env w)) (Sleep d) = 0"
  "pointer_writes (fst (cleanup env w)) = []"
  by (simp_all add: cleanup_def cleanup_runs_def transient_failures_def train_attempts_def
      split: option.splits)

lemma cleanup_state [simp]:
  "node (snd (cleanup env w)) = node w"
  "tick (snd (cleanup env w)) = tick w"
  by (simp_all add: cleanup_def)

lemma tock_state [simp]:
  "node (tock w) = node w"
  "tick (tock w) = Suc (tick w)"
  "dist_initialized (tock w) = dist_initialized w"
  by (simp_all add: tock_def)

lemma trace_counts_append [simp]:
  "cleanup_runs (xs @ ys) = cleanup_runs xs + cleanup_runs ys"
  "transient_failures (xs @ ys) = transient_failures xs + transient_failures ys"
  "train_attempts (xs @ ys) = train_attempts xs + train_attempts ys"
  by (simp_all add: cleanup_runs_def transient_failures_def train_attempts_def)

lemma trace_counts_Cons [simp]:
  "cleanup_runs (e # xs) = (if e = Clear_stage_cache then 1 else 0) + cleanup_runs xs"
  "transient_failures (e # xs) = (if is_ipc_warning e then 1 else 0) + transient_failures xs"
  "train_attempts (e # xs) = (if is_train_attempt e then 1 else 0) + train_attempts xs"
  "cleanup_runs [] = 0" "transient_failures [] = 0" "train_attempts [] = 0"
  by (simp_all add: cleanup_runs_def transient_failures_def train_attempts_def)

lemma train_loop_all_transient:
  assumes "\<forall>k. trainer_train env k = Inl BlockingIOError \<or> trainer_train env k = Inl EOFError"
  shows "fst (train_loop env n w) = Inr None
       \<and> train_attempts (fst (snd (train_loop env n w))) = n
       \<and> transient_failures (fst (snd (train_loop env n w))) = n
       \<and> cleanup_runs (fst (snd (train_loop env n w))) = n
       \<and> count_list (fst (snd (train_loop env n w))) (Sleep 5) = n"
proof (induction n arbitrary: w)
  case 0
  show ?case by simp
next
  case (Suc n)
  from assms have "trainer_train env (tick w) = Inl BlockingIOError
      \<or> trainer_train env (tick w) = Inl EOFError" by blast
  then show ?case
  proof
    assume t: "trainer_train env (tick w) = Inl BlockingIOError"
    show ?thesis
      using Suc[of "snd (cleanup env (tock w))"] cleanup_trace[of env "tock w"]
      by (simp add: t Let_def case_prod_beta)
  next
    assume t: "trainer_train env (tick w) = Inl EOFError"
    show ?thesis
      using Suc[of "snd (cleanup env (tock w))"] cleanup_trace[of env "tock w"]
      by (simp add: t Let_def case_prod_beta)
  qed
qed

text \<open>
  C2 fails on the code at its third clause. When the training step raises a transient
  error at every attempt, the step is attempted 5 times and each failure is followed by
  \<^verbatim>\<open>cleanup()\<close> and a sleep of 5 seconds, the fifth one too. The loop then ends normally,
  the last transient error is dropped, and reading \<^verbatim>\<open>train_result\<close>, which was never
  assigned, raises UnboundLocalError: that is the error the caller sees.
\<close>

theorem exhausted_retries_raise_unbound_local:
  assumes "\<forall>k. trainer_train env k = Inl BlockingIOError \<or> trainer_train env k = Inl EOFError"
  shows "fst (train_stage_and_save env train_dataset w) = Inl UnboundLocalError
       \<and> train_attempts (fst (snd (train_stage_and_save env train_dataset w))) = 5
       \<and> cleanup_runs (fst (snd (train_stage_and_save env train_dataset w))) = 5
       \<and> count_list (fst (snd (train_stage_and_save env train_dataset w))) (Sleep 5) = 5"
  using train_loop_all_transient[OF assms, of MAX_TRAIN_FAILS w]
  by (auto simp add: train_stage_and_save_def MAX_TRAIN_FAILS_def
      split: prod.splits sum.splits option.splits)

theorem exhausted_retries_raise_unbound_local_witness:
  "(\<forall>k. trainer_train stuck_env k = Inl BlockingIOError \<or> trainer_train stuck_env k = Inl EOFError)
   \<and> train_stage_and_save stuck_env [''x''] fresh_world =
       (Inl UnboundLocalError,
        [Trainer_train 0 0, Log (Msg_dht_ipc_error BlockingIOError), Gc_collect,
         Clear_stage_cache, Sleep 5,
         Trainer_train 0 0, Log (Msg_dht_ipc_error BlockingIOError), Gc_collect,
         Clear_stage_cache, Sleep 5,
         Trainer_train 0 0, Log (Msg_dht_ipc_error BlockingIOError), Gc_collect,
         Clear_stage_cache, Sleep 5,
         Trainer_train 0 0, Log (Msg_dht_ipc_error BlockingIOError), Gc_collect,
         Clear_stage_cache, Sleep 5,
         Trainer_train 0 0, Log (Msg_dht_ipc_error BlockingIOError), Gc_collect,
         Clear_stage_cache, Sleep 5],
        at_tick 5 0)"
proof -
  have h: "\<forall>k. trainer_train stuck_env k = Inl BlockingIOError
             \<or> trainer_train stuck_env k = Inl EOFError"
    by (simp add: stuck_env_def quiet_env_def)
  show ?thesis
    using exhausted_retries_raise_unbound_local[OF h, of "[''x'']" fresh_world] h
    by (simp add: stuck_env_def quiet_env_def fresh_world_def at_tick_def
        train_stage_and_save_def MAX_TRAIN_FAILS_def eval_nat_numeral cleanup_def tock_def Let_def)
qed

text \<open>
  The rest of C2 holds. A transient failure that is not the last attempt is followed by
  cleanup, the 5 second sleep and the next attempt; an error of any other class leaves at
  once, after a single attempt.
\<close>

lemma other_error_aborts_at_once:
  assumes "trainer_train env (tick w) = Inl e" and "e \<noteq> BlockingIOError" and "e \<noteq> EOFError"
  shows "train_stage_and_save env train_dataset w =
           (Inl e, [Trainer_train (round_num (node w)) (stage_num (node w))], tock w)"
  using assms by (simp add: train_stage_and_save_def MAX_TRAIN_FAILS_def eval_nat_numeral Let_def)

lemma transient_error_retries:
  assumes "trainer_train env (tick w) = Inl e" and "e = BlockingIOError \<or> e = EOFError"
  shows "train_loop env (Suc n) w =
           (fst (train_loop env n (snd (cleanup env (tock w)))),
            [Trainer_train (round_num (node w)) (stage_num (node w)), Log (Msg_dht_ipc_error e)]
            @ fst (cleanup env (tock w)) @ [Sleep 5]
            @ fst (snd (train_loop env n (snd (cleanup env (tock w))))),
            snd (snd (train_loop env n (snd (cleanup env (tock w))))))"
  using assms by (auto simp add: Let_def split: prod.splits)

section \<open>Properties of train_stages\<close>

lemma train_loop_node [simp]: "node (snd (snd (train_loop env n w))) = node w"
  by (induction n arbitrary: w) (simp_all add: Let_def case_prod_beta split: sum.splits)

lemma train_stage_and_save_node [simp]:
  "node (snd (snd (train_stage_and_save env train_dataset w))) = node w"
proof -
  obtain r evs w' where t: "train_loop env MAX_TRAIN_FAILS w = (r, evs, w')"
    by (metis prod_cases3)
  with train_loop_node[of env MAX_TRAIN_FAILS w] have "node w' = node w" by simp
  with t show ?thesis
    by (simp add: train_stage_and_save_def case_prod_beta split: sum.splits option.splits)
qed

lemma save_stage_counts:
  "save_stage env train_dataset m = (r, evs) \<Longrightarrow>
     cleanup_runs evs = 0 \<and> transient_failures evs = 0"
  by (auto simp add: save_stage_def Let_def split: if_splits)

lemma cleanup_counts:
  "cleanup env w = (evs, w') \<Longrightarrow> cleanup_runs evs = 1 \<and> transient_failures evs = 0"
  using cleanup_trace(1,2)[of env w] by simp

lemma train_loop_cleanups:
  "train_loop env n w = (r, evs, w') \<Longrightarrow> cleanup_runs evs = transient_failures evs"
proof (induction n arbitrary: w r evs w')
  case 0
  then show ?case by simp
next
  case (Suc n)
  from Suc.prems show ?case
    by (auto simp add: Let_def split: sum.splits prod.splits if_splits
        dest!: Suc.IH cleanup_counts)
qed

lemma train_stage_and_save_cleanups:
  "train_stage_and_save env train_dataset w = (r, evs, w') \<Longrightarrow>
     cleanup_runs evs = transient_failures evs"
  by (auto simp add: train_stage_and_save_def split: sum.splits prod.splits option.splits
      dest!: train_loop_cleanups save_stage_counts)

lemma stages_loop_cleanups:
  "stages_loop env coord rnd stage_no todo w = (r, evs, w') \<Longrightarrow>
     cleanup_runs evs = transient_failures evs"
proof (induction todo arbitrary: stage_no w r evs w' coord)
  case Nil
  then show ?case by simp
next
  case (Cons stg rest)
  from Cons.prems show ?case
    by (auto simp add: Let_def split: sum.splits prod.splits if_splits
        dest!: Cons.IH train_stage_and_save_cleanups)
qed

lemma push_model_counts [simp]:
  "cleanup_runs (fst (push_model env b w)) = 0"
  "transient_failures (fst (push_model env b w)) = 0"
  by (simp_all add: push_model_def split: option.splits)

text \<open>
  C5, as the code has it. \<^verbatim>\<open>train_stages\<close> calls \<^verbatim>\<open>cleanup()\<close> in its last lines, with no
  \<^verbatim>\<open>try\<close>/\<^verbatim>\<open>finally\<close>, and \<^verbatim>\<open>train_stage_and_save\<close> calls it after each transient failure
  of the training step. For a call with at least one stage to run, the runs of
  \<^verbatim>\<open>cleanup()\<close> are therefore one per transient failure, and one more exactly when the call
  returns normally: none at all when a stage raises at once.
\<close>

theorem cleanup_runs_of_train_stages:
  assumes "py_slice_from (stages env) start_stage \<noteq> []"
  shows "cleanup_runs (fst (snd (train_stages env rnd start_stage coord w)))
           = transient_failures (fst (snd (train_stages env rnd start_stage coord w)))
             + (if fst (train_stages env rnd start_stage coord w) = Inr () then 1 else 0)"
proof -
  let ?w0 = "w\<lparr>node := (node w)\<lparr>round_num := rnd\<rparr>\<rparr>"
  let ?todo = "py_slice_from (stages env) start_stage"
  obtain r evs w1 where l: "stages_loop env coord rnd start_stage ?todo ?w0 = (r, evs, w1)"
    by (metis prod_cases3)
  then have c: "cleanup_runs evs = transient_failures evs" by (rule stages_loop_cleanups)
  show ?thesis
  proof (cases r)
    case (Inl e)
    with l c show ?thesis by (simp add: train_stages_def Let_def)
  next
    case (Inr u)
    with l c assms cleanup_trace(1,2)[of env "snd (push_model env True w1)"]
    show ?thesis
      by (simp add: train_stages_def Let_def case_prod_beta)
  qed
qed

theorem cleanup_runs_of_train_stages_witness:
  "py_slice_from (stages hiccup_env) 0 \<noteq> []
   \<and> fst (train_stages hiccup_env 0 0 False fresh_world) = Inr ()
   \<and> transient_failures (fst (snd (train_stages hiccup_env 0 0 False fresh_world))) = 1
   \<and> cleanup_runs (fst (snd (train_stages hiccup_env 0 0 False fresh_world))) = 2
   \<and> py_slice_from (stages first_stage_env) 0 \<noteq> []
   \<and> fst (train_stages first_stage_env 0 0 False fresh_world) = Inl DatasetGenerationError
   \<and> transient_failures (fst (snd (train_stages first_stage_env 0 0 False fresh_world))) = 0
   \<and> cleanup_runs (fst (snd (train_stages first_stage_env 0 0 False fresh_world))) = 0"
proof -
  have a: "py_slice_from (stages hiccup_env) 0 \<noteq> []"
    and b: "py_slice_from (stages first_stage_env) 0 \<noteq> []"
    by (simp_all add: hiccup_env_def first_stage_env_def quiet_env_def py_slice_from_def)
  have c: "train_stages hiccup_env 0 0 False fresh_world =
      (Inr (),
       [Log (Msg_training 0 0), Datasets_fn 0 0, Create_trainer [''reward''],
        Trainer_train 0 0, Log (Msg_dht_ipc_error BlockingIOError), Gc_collect,
        Clear_stage_cache, Sleep 5,
        Trainer_train 0 0, Log_metrics [(''train_samples'', 1)],
        Save_metrics [(''train_samples'', 1)], Save_state, Log Msg_saving_model,
        Save_model, Log Msg_model_saved, Wait_for_everyone, Save_pretrained,
        Log Msg_tokenizer_saved, Log (Msg_finished_training 0 0),
        Gc_collect, Clear_stage_cache, Gc_collect],
       at_tick 3 0)"
    by (simp add: hiccup_env_def quiet_env_def good_stage_def fresh_world_def at_tick_def run_defs)
  have d: "train_stages first_stage_env 0 0 False fresh_world =
      (Inl DatasetGenerationError, [Log (Msg_training 0 0), Datasets_fn 0 0], at_tick 1 0)"
    by (simp add: first_stage_env_def quiet_env_def failing_stage_def fresh_world_def at_tick_def
        run_defs)
  show ?thesis
    using cleanup_runs_of_train_stages[OF a, of 0 False fresh_world]
      cleanup_runs_of_train_stages[OF b, of 0 False fresh_world] a b
    by (simp add: c d)
qed

text \<open>
  C5 as the specification words it fails both ways: a stage whose dataset construction
  raises leaves
  \<^verbatim>\<open>train_stages\<close> without any run of \<^verbatim>\<open>cleanup()\<close>, and a successful call whose training
  step failed once on the way has run it twice.
\<close>

theorem cleanup_not_exactly_once_counterexample:
  "train_stages first_stage_env 0 0 False fresh_world =
      (Inl DatasetGenerationError, [Log (Msg_training 0 0), Datasets_fn 0 0], at_tick 1 0)
   \<and> cleanup_runs (fst (snd (train_stages first_stage_env 0 0 False fresh_world))) = 0
   \<and> fst (train_stages hiccup_env 0 0 False fresh_world) = Inr ()
   \<and> cleanup_runs (fst (snd (train_stages hiccup_env 0 0 False fresh_world))) = 2"
  by (simp add: first_stage_env_def hiccup_env_def quiet_env_def failing_stage_def good_stage_def
      fresh_world_def at_tick_def run_defs)

text \<open>
  What \<^verbatim>\<open>train\<close> does guarantee, on every path that returns or raises: the process group
  is destroyed.
\<close>

lemma train_destroys_process_group:
  assumes "train fuel env w = Some (r, evs, w')"
  shows "\<not> dist_initialized w'"
  using assms by (auto simp add: train_def split: option.splits prod.splits)

section \<open>The pointer is written before the stage runs\<close>

lemma only_stage_simps [simp]:
  "only_stage r s []"
  "only_stage r s (xs @ ys) = (only_stage r s xs \<and> only_stage r s ys)"
  "only_stage r s (e # xs) = ((\<forall>r' s'. stage_work r' s' e \<longrightarrow> r' = r \<and> s' = s) \<and> only_stage r s xs)"
  by (auto simp add: only_stage_def)

lemma stage_work_simps [simp]:
  "stage_work r s (Datasets_fn r' s') = (r' = r \<and> s' = s)"
  "stage_work r s (Trainer_train r' s') = (r' = r \<and> s' = s)"
  "stage_work r s (Log m) = False"
  "stage_work r s (Dht_store k sk v t) = False"
  "stage_work r s (Create_trainer fs) = False"
  "stage_work r s (Sleep d) = False"
  "stage_work r s Gc_collect = False"
  "stage_work r s Cuda_empty_cache = False"
  "stage_work r s Cuda_ipc_collect = False"
  "stage_work r s Mps_empty_cache = False"
  "stage_work r s Xpu_empty_cache = False"
  "stage_work r s Clear_stage_cache = False"
  "stage_work r s Wandb_finish = False"
  "stage_work r s Destroy_process_group = False"
  "stage_work r s Push_to_hub = False"
  "stage_work r s (Log_metrics m') = False"
  "stage_work r s (Save_metrics m') = False"
  "stage_work r s Save_state = False"
  "stage_work r s Save_model = False"
  "stage_work r s Wait_for_everyone = False"
  "stage_work r s Save_pretrained = False"
  by (auto simp add: stage_work_def)

lemma announced_Nil [simp]: "announced rnd []"
  by (simp add: announced_def)

lemma announced_append:
  assumes "announced rnd xs" and "announced rnd ys"
  shows "announced rnd (xs @ ys)"
  unfolding announced_def
proof (intro allI impI, elim conjE)
  fix pre e post r s
  assume split: "xs @ ys = pre @ e # post" and work: "stage_work r s e"
  from split obtain us where
    us: "(xs = pre @ us \<and> us @ ys = e # post) \<or> (xs @ us = pre \<and> ys = us @ e # post)"
    unfolding append_eq_append_conv2 by blast
  have "(\<exists>vs. xs = pre @ e # vs) \<or> (\<exists>vs. pre = xs @ vs \<and> ys = vs @ e # post)"
  proof (cases us)
    case Nil
    with us show ?thesis by auto
  next
    case (Cons u vs)
    with us show ?thesis by auto
  qed
  then consider
      (left) vs where "xs = pre @ e # vs"
    | (right) vs where "pre = xs @ vs" "ys = vs @ e # post"
    by blast
  then show "r = rnd \<and> (\<exists>t. Dht_store ROUND_STAGE_NUMBER_KEY None (Round_stage rnd s) t \<in> set pre)"
  proof cases
    case left
    with assms(1) work show ?thesis unfolding announced_def by blast
  next
    case right
    from assms(2) right(2) work
    have "r = rnd \<and> (\<exists>t. Dht_store ROUND_STAGE_NUMBER_KEY None (Round_stage rnd s) t \<in> set vs)"
      unfolding announced_def by blast
    with right(1) show ?thesis by auto
  qed
qed

lemma announced_quiet:
  assumes "\<forall>e \<in> set evs. \<forall>r s. \<not> stage_work r s e"
  shows "announced rnd evs"
  using assms unfolding announced_def by auto

lemma announced_segment:
  assumes "only_stage rnd s body"
  shows "announced rnd (Dht_store ROUND_STAGE_NUMBER_KEY None (Round_stage rnd s) t # body)"
  unfolding announced_def
proof (intro allI impI, elim conjE)
  fix pre e post r s'
  assume split: "Dht_store ROUND_STAGE_NUMBER_KEY None (Round_stage rnd s) t # body = pre @ e # post"
    and work: "stage_work r s' e"
  from split work obtain us where pre: "pre = Dht_store ROUND_STAGE_NUMBER_KEY None (Round_stage rnd s) t # us"
    and body: "body = us @ e # post"
    by (cases pre) auto
  from body assms work have "r = rnd \<and> s' = s" by (auto simp add: only_stage_def)
  with pre show "r = rnd \<and> (\<exists>t. Dht_store ROUND_STAGE_NUMBER_KEY None (Round_stage rnd s') t \<in> set pre)"
    by auto
qed

lemma cleanup_only_stage:
  "cleanup env w = (evs, w') \<Longrightarrow> only_stage r s evs"
  by (auto simp add: cleanup_def split: option.splits if_splits)

lemma train_loop_only_stage:
  "train_loop env n w = (r, evs, w') \<Longrightarrow> only_stage (round_num (node w)) (stage_num (node w)) evs"
proof (induction n arbitrary: w r evs w')
  case 0
  then show ?case by simp
next
  case (Suc n)
  show ?case
  proof (cases "trainer_train env (tick w)")
    case (Inr m)
    with Suc.prems show ?thesis by (auto simp add: Let_def)
  next
    case (Inl e)
    obtain evc wc where c: "cleanup env (tock w) = (evc, wc)" by (metis surj_pair)
    obtain r1 evs1 w1 where l: "train_loop env n wc = (r1, evs1, w1)" by (metis prod_cases3)
    from c have nd: "node wc = node w" using cleanup_state(1)[of env "tock w"] by simp
    from Suc.IH[OF l] nd have "only_stage (round_num (node w)) (stage_num (node w)) evs1" by simp
    with Suc.prems Inl c l cleanup_only_stage[OF c] show ?thesis
      by (auto simp add: Let_def split: if_splits)
  qed
qed

lemma save_stage_only_stage:
  "save_stage env train_dataset m = (r, evs) \<Longrightarrow> only_stage rnd s evs"
  by (auto simp add: save_stage_def Let_def split: if_splits)

lemma train_stage_and_save_only_stage:
  "train_stage_and_save env train_dataset w = (r, evs, w') \<Longrightarrow>
     only_stage (round_num (node w)) (stage_num (node w)) evs"
  by (auto simp add: train_stage_and_save_def split: sum.splits prod.splits option.splits
      dest: train_loop_only_stage save_stage_only_stage)

lemma stages_loop_announced:
  "round_num (node w) = rnd \<Longrightarrow> stages_loop env True rnd stage_no todo w = (r, evs, w') \<Longrightarrow>
     announced rnd evs"
proof (induction todo arbitrary: stage_no w r evs w')
  case Nil
  then show ?case by simp
next
  case (Cons stg rest)
  let ?w1 = "w\<lparr>node := (node w)\<lparr>stage_num := stage_no\<rparr>\<rparr>"
  let ?ptr = "Dht_store ROUND_STAGE_NUMBER_KEY None (Round_stage rnd stage_no)
                (get_dht_time env (tick w) + out_expiration (node w))"
  show ?case
  proof (cases "datasets_fn stg (Suc (tick w)) rnd stage_no")
    case (Inl e)
    with Cons.prems have "evs = ?ptr # [Log (Msg_training rnd stage_no), Datasets_fn rnd stage_no]"
      by (auto simp add: Let_def)
    then show ?thesis by (simp add: announced_segment)
  next
    case (Inr ds)
    obtain train_dataset test_dataset where ds: "ds = (train_dataset, test_dataset)"
      by (metis surj_pair)
    obtain r1 evs1 w3 where
      t: "train_stage_and_save env train_dataset (tock (tock ?w1)) = (r1, evs1, w3)"
      by (metis prod_cases3)
    from train_stage_and_save_only_stage[OF t] Cons.prems(1)
    have only: "only_stage rnd stage_no evs1" by simp
    from t have nd: "node w3 = node ?w1"
      using train_stage_and_save_node[of env train_dataset "tock (tock ?w1)"] by simp
    show ?thesis
    proof (cases r1)
      case (Inl e)
      with Cons.prems Inr ds t
      have "evs = ?ptr # ([Log (Msg_training rnd stage_no), Datasets_fn rnd stage_no,
                           Create_trainer (reward_funcs stg)] @ evs1)"
        by (auto simp add: Let_def)
      with only show ?thesis by (simp add: announced_segment)
    next
      case r1: (Inr u)
      obtain r2 evs2 w4 where
        l: "stages_loop env True rnd (stage_no + 1) rest w3 = (r2, evs2, w4)"
        by (metis prod_cases3)
      from nd Cons.prems(1) have "round_num (node w3) = rnd" by simp
      from Cons.IH[OF this l] have rest: "announced rnd evs2" .
      from Cons.prems Inr ds t r1 l
      have "evs = (?ptr # ([Log (Msg_training rnd stage_no), Datasets_fn rnd stage_no,
                           Create_trainer (reward_funcs stg)] @ evs1
                           @ [Log (Msg_finished_training rnd stage_no)])) @ evs2"
        by (auto simp add: Let_def)
      moreover have "announced rnd (?ptr # ([Log (Msg_training rnd stage_no),
          Datasets_fn rnd stage_no, Create_trainer (reward_funcs stg)] @ evs1
          @ [Log (Msg_finished_training rnd stage_no)]))"
        using only by (intro announced_segment) simp
      ultimately show ?thesis using rest by (simp only: announced_append)
    qed
  qed
qed

lemma push_model_quiet:
  "push_model env b w = (evs, w') \<Longrightarrow> \<forall>e \<in> set evs. \<forall>r s. \<not> stage_work r s e"
  by (auto simp add: push_model_def split: option.splits if_splits)

lemma cleanup_quiet:
  "cleanup env w = (evs, w') \<Longrightarrow> \<forall>e \<in> set evs. \<forall>r s. \<not> stage_work r s e"
  by (auto simp add: cleanup_def split: option.splits if_splits)

lemma train_stages_announced:
  assumes "train_stages env rnd start_stage True w = (res, evs, w')"
  shows "announced rnd evs"
proof -
  let ?w0 = "w\<lparr>node := (node w)\<lparr>round_num := rnd\<rparr>\<rparr>"
  let ?todo = "py_slice_from (stages env) start_stage"
  obtain r1 evs1 w1 where l: "stages_loop env True rnd start_stage ?todo ?w0 = (r1, evs1, w1)"
    by (metis prod_cases3)
  have a1: "announced rnd evs1" by (rule stages_loop_announced[OF _ l]) simp
  show ?thesis
  proof (cases r1)
    case (Inl e)
    with l assms a1 show ?thesis by (simp add: train_stages_def Let_def)
  next
    case (Inr u)
    obtain evp w2 where p: "push_model env (?todo \<noteq> []) w1 = (evp, w2)" by (metis surj_pair)
    obtain evc w3 where c: "cleanup env w2 = (evc, w3)" by (metis surj_pair)
    have "announced rnd (evp @ evc @ [Gc_collect])" "announced rnd (evp @ evc)"
      using push_model_quiet[OF p] cleanup_quiet[OF c] by (auto intro!: announced_quiet)
    with a1 have "announced rnd (evs1 @ evp @ evc @ [Gc_collect])" "announced rnd (evs1 @ evp @ evc)"
      by (auto intro: announced_append)
    with l Inr p c assms show ?thesis
      by (auto simp add: train_stages_def Let_def split: if_splits)
  qed
qed

text \<open>
  C1: in a call \<^verbatim>\<open>train_stages(rnd, start_stage, is_coordinator=True)\<close>, whatever it returns
  or raises, every call of a stage's \<^verbatim>\<open>datasets_fn\<close> and every attempt of its training step
  is for round \<open>rnd\<close>, and the pair \<open>(rnd, s)\<close> of its stage has been written under the round
  and stage key earlier in the trace.
\<close>

theorem pointer_stored_before_stage_runs:
  assumes "train_stages env rnd start_stage True w = (res, evs, w')"
    and "evs = pre @ e # post"
    and "e = Datasets_fn r s \<or> e = Trainer_train r s"
  shows "r = rnd \<and> (\<exists>t. Dht_store ROUND_STAGE_NUMBER_KEY None (Round_stage rnd s) t \<in> set pre)"
  using train_stages_announced[OF assms(1)] assms(2,3)
  unfolding announced_def stage_work_def by blast

theorem pointer_stored_before_stage_runs_witness:
  "train_stages single_stage_env 0 0 True fresh_world =
     (Inr (),
      [Dht_store ROUND_STAGE_NUMBER_KEY None (Round_stage 0 0) 60, Log (Msg_training 0 0),
       Datasets_fn 0 0, Create_trainer [''reward'']]
      @ Trainer_train 0 0
      # [Log_metrics [(''train_samples'', 1)], Save_metrics [(''train_samples'', 1)], Save_state,
         Log Msg_saving_model, Save_model, Log Msg_model_saved, Wait_for_everyone,
         Save_pretrained, Log Msg_tokenizer_saved, Log (Msg_finished_training 0 0), Gc_collect,
         Clear_stage_cache, Gc_collect],
      at_tick 3 0)
   \<and> (\<exists>t. Dht_store ROUND_STAGE_NUMBER_KEY None (Round_stage 0 0) t
          \<in> set [Dht_store ROUND_STAGE_NUMBER_KEY None (Round_stage 0 0) 60,
                 Log (Msg_training 0 0), Datasets_fn 0 0, Create_trainer [''reward'']])"
proof -
  have run: "train_stages single_stage_env 0 0 True fresh_world =
     (Inr (),
      [Dht_store ROUND_STAGE_NUMBER_KEY None (Round_stage 0 0) 60, Log (Msg_training 0 0),
       Datasets_fn 0 0, Create_trainer [''reward'']]
      @ Trainer_train 0 0
      # [Log_metrics [(''train_samples'', 1)], Save_metrics [(''train_samples'', 1)], Save_state,
         Log Msg_saving_model, Save_model, Log Msg_model_saved, Wait_for_everyone,
         Save_pretrained, Log Msg_tokenizer_saved, Log (Msg_finished_training 0 0), Gc_collect,
         Clear_stage_cache, Gc_collect],
      at_tick 3 0)"
    by (simp add: single_stage_env_def quiet_env_def good_stage_def fresh_world_def at_tick_def
        run_defs)
  from pointer_stored_before_stage_runs[OF run refl, of 0 0] run
  show ?thesis by simp
qed

section \<open>The values the coordinator writes under the round and stage key\<close>

declare coordinator_loop.simps [simp del]

lemma pointer_writes_append [simp]:
  "pointer_writes (xs @ ys) = pointer_writes xs @ pointer_writes ys"
  by (induction xs rule: pointer_writes.induct) simp_all

lemma cleanup_pointer_writes:
  "cleanup env w = (evs, w') \<Longrightarrow> pointer_writes evs = []"
  by (auto simp add: cleanup_def split: option.splits if_splits)

lemma train_loop_pointer_writes:
  "train_loop env n w = (r, evs, w') \<Longrightarrow> pointer_writes evs = []"
proof (induction n arbitrary: w r evs w')
  case 0
  then show ?case by simp
next
  case (Suc n)
  from Suc.prems show ?case
    by (auto simp add: Let_def split: sum.splits prod.splits if_splits
        dest!: Suc.IH cleanup_pointer_writes)
qed

lemma save_stage_pointer_writes:
  "save_stage env train_dataset m = (r, evs) \<Longrightarrow> pointer_writes evs = []"
  by (auto simp add: save_stage_def Let_def split: if_splits)

lemma train_stage_and_save_pointer_writes:
  "train_stage_and_save env train_dataset w = (r, evs, w') \<Longrightarrow> pointer_writes evs = []"
  by (auto simp add: train_stage_and_save_def split: sum.splits prod.splits option.splits
      dest!: train_loop_pointer_writes save_stage_pointer_writes)

lemma push_model_pointer_writes:
  "push_model env b w = (evs, w') \<Longrightarrow> pointer_writes evs = []"
  by (auto simp add: push_model_def split: option.splits if_splits)

lemma stages_loop_pointer_writes:
  "round_num (node w) = rnd \<Longrightarrow> stages_loop env coord rnd stage_no todo w = (r, evs, w') \<Longrightarrow>
     (\<forall>p \<in> set (pointer_writes evs). fst p = rnd \<and> stage_no \<le> snd p)
     \<and> sorted_wrt (\<lambda>p q. snd p < snd q) (pointer_writes evs)"
proof (induction todo arbitrary: stage_no w r evs w')
  case Nil
  then show ?case by simp
next
  case (Cons stg rest)
  let ?w1 = "w\<lparr>node := (node w)\<lparr>stage_num := stage_no\<rparr>\<rparr>"
  let ?w2 = "if coord then tock ?w1 else ?w1"
  let ?here = "if coord then [(rnd, stage_no)] else []"
  show ?case
  proof (cases "datasets_fn stg (tick ?w2) rnd stage_no")
    case (Inl e)
    with Cons.prems have "pointer_writes evs = ?here"
      by (auto simp add: Let_def split: if_splits)
    then show ?thesis by simp
  next
    case (Inr ds)
    obtain train_dataset test_dataset where ds: "ds = (train_dataset, test_dataset)"
      by (metis surj_pair)
    obtain r1 evs1 w3 where
      t: "train_stage_and_save env train_dataset (tock ?w2) = (r1, evs1, w3)"
      by (metis prod_cases3)
    have quiet: "pointer_writes evs1 = []" by (rule train_stage_and_save_pointer_writes[OF t])
    from t have nd: "node w3 = node ?w1"
      using train_stage_and_save_node[of env train_dataset "tock ?w2"] by (simp split: if_splits)
    show ?thesis
    proof (cases r1)
      case (Inl e)
      with Cons.prems Inr ds t quiet have "pointer_writes evs = ?here"
        by (auto simp add: Let_def split: if_splits)
      then show ?thesis by simp
    next
      case r1: (Inr u)
      obtain r2 evs2 w4 where
        l: "stages_loop env coord rnd (stage_no + 1) rest w3 = (r2, evs2, w4)"
        by (metis prod_cases3)
      from nd Cons.prems(1) have "round_num (node w3) = rnd" by simp
      from Cons.IH[OF this l]
      have rest: "\<forall>p \<in> set (pointer_writes evs2). fst p = rnd \<and> stage_no + 1 \<le> snd p"
        and srt: "sorted_wrt (\<lambda>p q. snd p < snd q) (pointer_writes evs2)"
        by simp_all
      from Cons.prems Inr ds t r1 l quiet
      have "pointer_writes evs = ?here @ pointer_writes evs2"
        by (auto simp add: Let_def split: if_splits)
      with rest srt show ?thesis by (auto simp add: sorted_wrt_append)
    qed
  qed
qed

lemma train_stages_pointer_writes:
  assumes "train_stages env rnd start_stage coord w = (r, evs, w')"
  shows "(\<forall>p \<in> set (pointer_writes evs). fst p = rnd)
       \<and> sorted_wrt (\<lambda>p q. snd p < snd q) (pointer_writes evs)"
proof -
  let ?w0 = "w\<lparr>node := (node w)\<lparr>round_num := rnd\<rparr>\<rparr>"
  let ?todo = "py_slice_from (stages env) start_stage"
  obtain r1 evs1 w1 where l: "stages_loop env coord rnd start_stage ?todo ?w0 = (r1, evs1, w1)"
    by (metis prod_cases3)
  have a1: "(\<forall>p \<in> set (pointer_writes evs1). fst p = rnd \<and> start_stage \<le> snd p)
     \<and> sorted_wrt (\<lambda>p q. snd p < snd q) (pointer_writes evs1)"
    by (rule stages_loop_pointer_writes[OF _ l]) simp
  obtain evp w2 where p: "push_model env (?todo \<noteq> []) w1 = (evp, w2)" by (metis surj_pair)
  obtain evc w3 where c: "cleanup env w2 = (evc, w3)" by (metis surj_pair)
  have "pointer_writes evs = pointer_writes evs1"
    using assms l p c push_model_pointer_writes[OF p] cleanup_pointer_writes[OF c]
    by (auto simp add: train_stages_def Let_def split: sum.splits if_splits)
  with a1 show ?thesis by simp
qed

lemma coordinator_loop_pointer_writes:
  "coordinator_loop env st rnd w = (r, evs, w') \<Longrightarrow>
     (\<forall>p \<in> set (pointer_writes evs). rnd \<le> fst p)
     \<and> sorted_wrt (\<lambda>p q. fst p < fst q \<or> (fst p = fst q \<and> snd p < snd q)) (pointer_writes evs)"
proof (induction "nat (max_rounds env - rnd)" arbitrary: rnd w r evs w')
  case 0
  then show ?case by (auto simp add: coordinator_loop.simps[of env st rnd w])
next
  case (Suc k)
  show ?case
  proof (cases "rnd < max_rounds env \<and> monotonic env (tick w) - st < train_timeout env")
    case False
    with Suc.prems show ?thesis
      by (auto simp add: coordinator_loop.simps[of env st rnd w] split: if_splits)
  next
    case True
    obtain r1 evs1 w1 where t: "train_stages env rnd 0 True (tock w) = (r1, evs1, w1)"
      by (metis prod_cases3)
    from train_stages_pointer_writes[OF t]
    have here: "\<forall>p \<in> set (pointer_writes evs1). fst p = rnd"
      and srt: "sorted_wrt (\<lambda>p q. snd p < snd q) (pointer_writes evs1)"
      by simp_all
    from here srt
    have lex1: "sorted_wrt (\<lambda>p q. fst p < fst q \<or> (fst p = fst q \<and> snd p < snd q))
                  (pointer_writes evs1)"
      by (auto simp add: sorted_wrt_iff_nth_less)
    show ?thesis
    proof (cases "r1 = Inr () \<and> rnd + 1 \<noteq> max_rounds env")
      case False
      with True t Suc.prems have "pointer_writes evs = pointer_writes evs1"
        by (auto simp add: coordinator_loop.simps[of env st rnd w] split: sum.splits if_splits)
      with here lex1 show ?thesis by simp
    next
      case again: True
      obtain r2 evs2 w2 where
        l: "coordinator_loop env st (rnd + 1) w1 = (r2, evs2, w2)"
        by (metis prod_cases3)
      from Suc.hyps(2) have "k = nat (max_rounds env - (rnd + 1))" by simp
      from Suc.hyps(1)[OF this l]
      have later: "\<forall>p \<in> set (pointer_writes evs2). rnd + 1 \<le> fst p"
        and lex2: "sorted_wrt (\<lambda>p q. fst p < fst q \<or> (fst p = fst q \<and> snd p < snd q))
                     (pointer_writes evs2)"
        by simp_all
      from True t again l Suc.prems
      have "pointer_writes evs = pointer_writes evs1 @ pointer_writes evs2"
        by (auto simp add: coordinator_loop.simps[of env st rnd w] split: sum.splits if_splits)
      with here later lex1 lex2 show ?thesis
        by (fastforce simp add: sorted_wrt_append)
    qed
  qed
qed

text \<open>
  C10, as the code has it: over a whole run of \<^verbatim>\<open>coordinator_train\<close> the written pairs
  (round, stage) increase strictly in lexicographic order. The round never decreases; the
  stage increases within a round and starts again at 0 with the next round.
\<close>

theorem pointer_writes_increase_lexicographically:
  "sorted_wrt (\<lambda>p q. fst p < fst q \<or> (fst p = fst q \<and> snd p < snd q))
     (pointer_writes (fst (snd (coordinator_train env w))))
   \<and> sorted (map fst (pointer_writes (fst (snd (coordinator_train env w)))))"
proof -
  obtain r evs w' where run: "coordinator_train env w = (r, evs, w')" by (metis prod_cases3)
  then have "coordinator_loop env (monotonic env (tick w)) 0 (tock w) = (r, evs, w')"
    by (simp add: coordinator_train_def)
  from coordinator_loop_pointer_writes[OF this]
  have lex: "sorted_wrt (\<lambda>p q. fst p < fst q \<or> (fst p = fst q \<and> snd p < snd q))
               (pointer_writes evs)"
    by simp
  then have "sorted_wrt (\<lambda>p q. fst p \<le> fst q) (pointer_writes evs)"
    by (rule sorted_wrt_mono_rel[rotated]) auto
  then have "sorted (map fst (pointer_writes evs))" by (simp add: sorted_map)
  with lex run show ?thesis by simp
qed

text \<open>
  C10 as the specification words it fails for the stage component: with two stages and
  two rounds the
  coordinator writes (0, 0), (0, 1), (1, 0), (1, 1), and the stage goes from 1 back to 0.
\<close>

theorem stage_component_decreases_counterexample:
  "pointer_writes (fst (snd (coordinator_train two_rounds_env fresh_world)))
     = [(0, 0), (0, 1), (1, 0), (1, 1)]
   \<and> \<not> sorted (map snd (pointer_writes (fst (snd (coordinator_train two_rounds_env fresh_world)))))"
proof -
  have "pointer_writes (fst (snd (coordinator_train two_rounds_env fresh_world)))
     = [(0, 0), (0, 1), (1, 0), (1, 1)]"
    by (simp add: coordinator_train_def coordinator_loop.simps two_rounds_env_def quiet_env_def
        good_stage_def fresh_world_def run_defs)
  then show ?thesis by simp
qed

section \<open>Properties of compute_loss\<close>

text \<open>
  The part of C6 that holds: off the cadence, the worker's outputs and rewards are not
  stored and \<open>stage_rewards\<close> is not advanced; a worker that is not the coordinator writes
  nothing at all. On the cadence both are stored, in this order.
\<close>

lemma off_cadence_keeps_rewards:
  assumes "global_step ts mod CADENCE_OF_UPDATE_STEPS \<noteq> 0"
  shows "fst (snd (snd (compute_loss env ts w))) = ts"
  using assms
  by (simp add: compute_loss_def case_prod_beta split: sum.splits)

lemma off_cadence_follower_stores_nothing:
  assumes "global_step ts mod CADENCE_OF_UPDATE_STEPS \<noteq> 0" and "\<not> is_coordinator (node w)"
  shows "fst (snd (compute_loss env ts w)) = []"
  using assms
  by (simp add: compute_loss_def split: sum.splits)

lemma on_cadence_stores_outputs_and_rewards:
  assumes "super_compute_loss env (tick w) = Inr loss"
    and "global_step ts mod CADENCE_OF_UPDATE_STEPS = 0"
    and "map_of (outputs (node w)) ''question'' = Some question"
    and "\<not> is_coordinator (node w)"
  shows "map is_store (fst (snd (compute_loss env ts w))) = [True, False, True]
       \<and> stage_rewards (fst (snd (snd (compute_loss env ts w))))
           = stage_rewards ts + sum_list (rewards (node w))"
  using assms
  by (simp add: compute_loss_def publish_outputs_def Let_def)

text \<open>
  C6 fails on the code for the leaderboard. The call of \<^verbatim>\<open>publish_leaderboard\<close> stands after
  the cadence block, not inside it, so the coordinator reads the rewards and stores the
  leaderboard at every call of \<^verbatim>\<open>compute_loss\<close>: at a step that is not a multiple of 4 the
  leaderboard write is the one store write of the call.
\<close>

theorem leaderboard_published_off_cadence:
  assumes "super_compute_loss env (tick w) = Inr loss"
    and "global_step ts mod CADENCE_OF_UPDATE_STEPS \<noteq> 0"
    and "is_coordinator (node w)"
    and "rewards_snapshot env (tock w) = Some items" and "items \<noteq> []"
  shows "fst (compute_loss env ts w) = Inr loss
       \<and> filter is_store (fst (snd (compute_loss env ts w))) =
           [Dht_store (Leaderboard_key (round_num (node w)) (stage_num (node w))) None
              (Leaderboard (py_sorted_reverse (\<lambda>t. (snd t, fst t)) items))
              (get_dht_time env (Suc (Suc (tick w))) + out_expiration (node w))]"
  using assms
  by (simp add: compute_loss_def publish_leaderboard_def rewards_snapshot_def Let_def tock_def)

theorem leaderboard_published_off_cadence_witness:
  "super_compute_loss scored_env (tick coordinator_world) = Inr 0
   \<and> global_step step_one mod CADENCE_OF_UPDATE_STEPS \<noteq> 0
   \<and> is_coordinator (node coordinator_world)
   \<and> rewards_snapshot scored_env (tock coordinator_world) = Some [(''a'', 1), (''b'', 3), (''c'', 1)]
   \<and> compute_loss scored_env step_one coordinator_world =
       (Inr 0,
        [Dht_get (Rewards_key 0 0),
         Dht_store (Leaderboard_key 0 0) None (Leaderboard [(''b'', 3), (''c'', 1), (''a'', 1)]) 60],
        step_one, coordinator_world\<lparr>tick := 3\<rparr>)"
proof -
  have h: "super_compute_loss scored_env (tick coordinator_world) = Inr 0"
    "global_step step_one mod CADENCE_OF_UPDATE_STEPS \<noteq> 0"
    "is_coordinator (node coordinator_world)"
    "rewards_snapshot scored_env (tock coordinator_world) = Some [(''a'', 1), (''b'', 3), (''c'', 1)]"
    "[(''a'', 1::real), (''b'', 3), (''c'', 1)] \<noteq> []"
    by (simp_all add: scored_env_def quiet_env_def coordinator_world_def fresh_world_def
        step_one_def CADENCE_OF_UPDATE_STEPS_def rewards_snapshot_def tock_def)
  have run: "compute_loss scored_env step_one coordinator_world =
       (Inr 0,
        [Dht_get (Rewards_key 0 0),
         Dht_store (Leaderboard_key 0 0) None (Leaderboard [(''b'', 3), (''c'', 1), (''a'', 1)]) 60],
        step_one, coordinator_world\<lparr>tick := 3\<rparr>)"
    by (simp add: scored_env_def quiet_env_def coordinator_world_def fresh_world_def
        step_one_def CADENCE_OF_UPDATE_STEPS_def compute_loss_def publish_leaderboard_def
        py_sorted_reverse_def tock_def Let_def)
  from leaderboard_published_off_cadence[OF h] h run show ?thesis by simp
qed

end
